theory Spec2Isabelle
  imports Complex_Main
begin

section \<open>Numbers, vectors and matrices\<close>

text \<open>
  The controllers compute with C++ \<^verbatim>\<open>double\<close> and Eigen vectors. A \<^verbatim>\<open>double\<close> is
  modelled by a real number (rounding, infinities and NaN are left out), \<^verbatim>\<open>M_PI\<close> by
  \<^term>\<open>pi\<close>, a dynamically sized \<^verbatim>\<open>VectorXd\<close> by a list of reals, a \<^verbatim>\<open>Vector3d\<close> by a
  triple, a \<^verbatim>\<open>Vector4d\<close> by a quadruple and a \<^verbatim>\<open>Matrix3d\<close> by its three rows.
\<close>

type_synonym vecX = "real list"
type_synonym vec3 = "real \<times> real \<times> real"
type_synonym vec4 = "real \<times> real \<times> real \<times> real"
type_synonym mat3 = "vec3 \<times> vec3 \<times> vec3"

text \<open>\<^verbatim>\<open>v.norm()\<close>: the Euclidean norm.\<close>

definition vnorm :: "vecX \<Rightarrow> real" where
  "vnorm v = sqrt (\<Sum>a\<leftarrow>v. a * a)"

text \<open>\<^verbatim>\<open>x - y\<close> on vectors, coefficient by coefficient (Eigen requires equal sizes).\<close>

definition vminus :: "vecX \<Rightarrow> vecX \<Rightarrow> vecX" where
  "vminus x y = map2 (-) x y"

text \<open>A \<^verbatim>\<open>Vector3d\<close> passed where a \<^verbatim>\<open>VectorXd\<close> is expected.\<close>

definition toX :: "vec3 \<Rightarrow> vecX" where
  "toX v = (case v of (a, b, c) \<Rightarrow> [a, b, c])"

definition add3 :: "vec3 \<Rightarrow> vec3 \<Rightarrow> vec3" where
  "add3 u v = (case u of (a, b, c) \<Rightarrow> case v of (d, e, f) \<Rightarrow> (a + d, b + e, c + f))"

definition sub3 :: "vec3 \<Rightarrow> vec3 \<Rightarrow> vec3" where
  "sub3 u v = (case u of (a, b, c) \<Rightarrow> case v of (d, e, f) \<Rightarrow> (a - d, b - e, c - f))"

definition scale3 :: "vec3 \<Rightarrow> real \<Rightarrow> vec3" where
  "scale3 u k = (case u of (a, b, c) \<Rightarrow> (a * k, b * k, c * k))"

definition div3 :: "vec3 \<Rightarrow> real \<Rightarrow> vec3" where
  "div3 u k = (case u of (a, b, c) \<Rightarrow> (a / k, b / k, c / k))"

definition dot3 :: "vec3 \<Rightarrow> vec3 \<Rightarrow> real" where
  "dot3 u v = (case u of (a, b, c) \<Rightarrow> case v of (d, e, f) \<Rightarrow> a * d + b * e + c * f)"

definition col3 :: "mat3 \<Rightarrow> nat \<Rightarrow> vec3" where
  "col3 m j = (case m of ((a, b, c), (d, e, f), (g, h, i)) \<Rightarrow>
     if j = 0 then (a, d, g) else if j = 1 then (b, e, h) else (c, f, i))"

text \<open>The product of two 3x3 matrices.\<close>

definition mat_mul3 :: "mat3 \<Rightarrow> mat3 \<Rightarrow> mat3" where
  "mat_mul3 m n = (case m of (r0, r1, r2) \<Rightarrow>
     ((dot3 r0 (col3 n 0), dot3 r0 (col3 n 1), dot3 r0 (col3 n 2)),
      (dot3 r1 (col3 n 0), dot3 r1 (col3 n 1), dot3 r1 (col3 n 2)),
      (dot3 r2 (col3 n 0), dot3 r2 (col3 n 1), dot3 r2 (col3 n 2))))"

text \<open>\<^verbatim>\<open>AngleAxisd(angle, Vector3d::UnitZ()).toRotationMatrix()\<close>: the rotation by
  \<open>angle\<close> about the z axis.\<close>

definition AngleAxisd_UnitZ :: "real \<Rightarrow> mat3" where
  "AngleAxisd_UnitZ angle =
     ((cos angle, - sin angle, 0), (sin angle, cos angle, 0), (0, 0, 1))"

section \<open>The goal-reached predicate\<close>

text \<open>\<^verbatim>\<open>robotReachedGoal\<close> of \<^verbatim>\<open>panda_interface/controller.cpp\<close>.\<close>

definition robotReachedGoal ::
  "vecX \<Rightarrow> vecX \<Rightarrow> vecX \<Rightarrow> vecX \<Rightarrow> vecX \<Rightarrow> vecX \<Rightarrow> bool" where
  "robotReachedGoal x x_desired xdot xddot omega alpha =
     (let epsilon = 3;
          error_norm = 100 * vnorm xdot + 10 * vnorm (vminus x x_desired) +
                       1000 * vnorm xddot + 1000 * vnorm omega + 1000 * vnorm alpha
      in if error_norm < epsilon then True else False)"

text \<open>\<^verbatim>\<open>robotReachedGoal\<close> of \<^verbatim>\<open>panda_starter_code/controller.cpp\<close>.\<close>

definition robotReachedGoal_starter ::
  "vecX \<Rightarrow> vecX \<Rightarrow> vecX \<Rightarrow> vecX \<Rightarrow> vecX \<Rightarrow> vecX \<Rightarrow> bool" where
  "robotReachedGoal_starter x x_desired xdot xddot omega alpha =
     (let epsilon = 0.001;
          error_norm = 100 * vnorm xdot + 10 * vnorm (vminus x x_desired) +
                       1000 * vnorm xddot + 1000 * vnorm omega + 1000 * vnorm alpha
      in if error_norm < epsilon then True else False)"

section \<open>The state of the controller\<close>

datatype mode_t = WAIT_MODE | EXECUTE_MODE

datatype state_t = JOINT_CONTROLLER | POSORI_CONTROLLER | JOINT_CONTROLLER_SHOT | END_SHOT

datatype violation =
  MAX_JOINT_POSITION | MIN_JOINT_POSITION | MAX_JOINT_VELOCITY | MAX_JOINT_TORQUE

text \<open>What the controller writes to redis: \<^verbatim>\<open>set(key, string)\<close> and
  \<^verbatim>\<open>setEigenMatrixJSON(key, vector)\<close>.\<close>

datatype redis_write = Set_string string string | Set_matrix string vecX

text \<open>
  The variables of \<^verbatim>\<open>controller.cpp\<close> that live across iterations of the control loop:
  its globals (\<^verbatim>\<open>mode\<close>, \<^verbatim>\<open>state\<close>, \<^verbatim>\<open>controller_counter\<close>, the time slots \<^verbatim>\<open>t_0\<close> to
  \<^verbatim>\<open>t_4\<close>, \<^verbatim>\<open>theta_mid\<close>, \<^verbatim>\<open>cue_start_pos\<close>, \<^verbatim>\<open>centershot\<close>) and the locals of \<^verbatim>\<open>main\<close>
  (\<^verbatim>\<open>a\<close> and \<^verbatim>\<open>w\<close> are the fields \<open>main_a\<close> and \<open>main_w\<close>). Of the task objects of the control
  library the record keeps the commanded pose, \<^verbatim>\<open>posori_task->_desired_position\<close> and
  \<^verbatim>\<open>posori_task->_desired_orientation\<close>, which only the controller assigns; gains,
  saturation settings, the joint target and the dynamics matrices are state of the
  library and are left out. \<open>redis_writes\<close> lists what was written to redis and
  \<open>reports\<close> the lines that \<^verbatim>\<open>safetyChecks\<close> printed, oldest first. The counter is an
  \<^verbatim>\<open>unsigned long long\<close> incremented once per millisecond tick; it is a natural number
  here. Both controller variants use this record; \<^verbatim>\<open>panda_starter_code\<close> has no
  \<^verbatim>\<open>theta_mid\<close>, \<^verbatim>\<open>cue_start_pos\<close>, \<^verbatim>\<open>centershot\<close>, \<^verbatim>\<open>psi\<close>, \<^verbatim>\<open>swing_angle\<close>,
  \<^verbatim>\<open>shot_angular_velocity\<close>, \<^verbatim>\<open>a\<close>, \<^verbatim>\<open>w\<close> or \<^verbatim>\<open>command_time\<close> and leaves those fields alone.
\<close>

record controller =
  mode :: mode_t
  state :: state_t
  controller_counter :: nat
  t_0 :: real
  t_1 :: real
  t_2 :: real
  t_3 :: real
  t_4 :: real
  theta_mid :: real
  cue_start_pos :: vec4
  centershot :: bool
  dof :: nat
  psi :: real
  hit_velocity :: real
  swing_angle :: real
  total_time :: real
  shot_angular_velocity :: real
  main_a :: real
  main_w :: real
  command_time :: real
  command_torques :: vecX
  joint_task_torques :: vecX
  posori_task_torques :: vecX
  desired_position :: vec3
  desired_orientation :: mat3
  redis_writes :: "redis_write list"
  reports :: "(violation \<times> nat option) list"

section \<open>The trajectory generator\<close>

text \<open>\<^verbatim>\<open>inRange\<close>: true if \<open>t\<close> lies between the lower and upper limits.\<close>

definition inRange :: "real \<Rightarrow> real \<Rightarrow> real \<Rightarrow> bool" where
  "inRange t lower upper = ((t < upper) \<and> (t \<ge> lower))"

text \<open>\<^verbatim>\<open>atan2(y, x)\<close> of the C library: the angle of the point \<open>(x, y)\<close> in \<open>(-pi, pi]\<close>,
  and 0 at the origin.\<close>

definition atan2 :: "real \<Rightarrow> real \<Rightarrow> real" where
  "atan2 y x =
     (if 0 < x then arctan (y / x)
      else if x < 0 then (if 0 \<le> y then arctan (y / x) + pi else arctan (y / x) - pi)
      else if 0 < y then pi / 2
      else if y < 0 then - pi / 2
      else 0)"

definition dot4 :: "vec4 \<Rightarrow> vec4 \<Rightarrow> real" where
  "dot4 u v = (case u of (a, b, c, d) \<Rightarrow> case v of (e, f, g, h) \<Rightarrow>
     a * e + b * f + c * g + d * h)"

text \<open>A 4x4 matrix, given by its rows, times a \<^verbatim>\<open>Vector4d\<close>.\<close>

definition mat4_vec :: "vec4 \<times> vec4 \<times> vec4 \<times> vec4 \<Rightarrow> vec4 \<Rightarrow> vec4" where
  "mat4_vec m v = (case m of (r0, r1, r2, r3) \<Rightarrow> (dot4 r0 v, dot4 r1 v, dot4 r2 v, dot4 r3 v))"

text \<open>\<^verbatim>\<open>v.head(3)\<close> of a vector of four coefficients.\<close>

definition head3 :: "vec4 \<Rightarrow> vec3" where
  "head3 v = (case v of (a, b, c, d) \<Rightarrow> (a, b, c))"

definition x3 :: "vec3 \<Rightarrow> real" where
  "x3 v = fst v"

definition y3 :: "vec3 \<Rightarrow> real" where
  "y3 v = fst (snd v)"

definition z3 :: "vec3 \<Rightarrow> real" where
  "z3 v = snd (snd v)"

text \<open>The board radius, the offsets, the home position \<^verbatim>\<open>xh\<close>, the position \<^verbatim>\<open>xc\<close> of the
  cue coin and the home orientation of \<^verbatim>\<open>panda_interface/controller.cpp\<close>.\<close>

definition board_r :: real where
  "board_r = 20.125 / 2 * 0.0254"

definition x_offset :: real where
  "x_offset = 0.7385"

definition y_offset :: real where
  "y_offset = 0.1070 + 0.035"

definition z_offset :: real where
  "z_offset = 0.3120"

definition xh :: vec3 where
  "xh = (0.2859, 0.2787, 0.4300)"

definition xc :: vec3 where
  "xc = (board_r * sin (- pi / 4) + x_offset, board_r * cos (- pi / 4) + y_offset, z_offset)"

definition home_orientation :: mat3 where
  "home_orientation =
     ((0.7360145, 0.6763110, 0.0297644),
      (-0.0413102, 0.0009846, 0.9991459),
      (0.6757041, -0.7366155, 0.0286632))"

text \<open>\<^verbatim>\<open>xcd\<close>: the drop-off position \<^verbatim>\<open>cue_start_pos\<close> of the board frame, taken to the
  robot frame by the transform \<^verbatim>\<open>T\<close>.\<close>

definition xcd :: "'a controller_scheme \<Rightarrow> vec3" where
  "xcd g =
     (let T = ((0, 1, 0, x_offset), (-1, 0, 0, y_offset), (0, 0, 1, z_offset), (0, 0, 0, 1))
      in head3 (mat4_vec T (cue_start_pos g)))"

text \<open>\<^verbatim>\<open>calculatePointInTrajectory\<close> of \<^verbatim>\<open>panda_interface/controller.cpp\<close>; it reads the
  globals \<^verbatim>\<open>t_0\<close> to \<^verbatim>\<open>t_4\<close> and \<^verbatim>\<open>cue_start_pos\<close>.\<close>

definition calculatePointInTrajectory :: "'a controller_scheme \<Rightarrow> real \<Rightarrow> vec3" where
  "calculatePointInTrajectory g t =
     (if inRange t (t_0 g) (t_1 g) then
        add3 xh (div3 (scale3 (sub3 xc xh) (t - t_0 g)) (t_1 g - t_0 g))
      else if inRange t (t_1 g) (t_2 g) then
        (let x0 = x3 xc;
             y0 = y3 xc;
             xf = x3 (xcd g);
             yf = y3 (xcd g);
             t0 = atan2 (x0 - x_offset) (y0 - y_offset);
             tf = atan2 (xf - x_offset) (yf - y_offset);
             old_range = t_2 g - t_1 g;
             new_range = tf - t0;
             new_t = (((t - t_1 g) * new_range) / old_range) + t0
         in (board_r * sin new_t + x_offset, board_r * cos new_t + y_offset, z3 xc))
      else if inRange t (t_2 g) (t_3 g) then xcd g
      else if inRange t (t_3 g) (t_4 g) then xcd g
      else xh)"

text \<open>\<^verbatim>\<open>hit_rot\<close>: the rotation by \<open>-pi/2 + psi\<close> about the z axis, written out by the
  source coefficient by coefficient.\<close>

definition hit_rot :: "real \<Rightarrow> mat3" where
  "hit_rot ps =
     ((cos (- pi / 2 + ps), - sin (- pi / 2 + ps), 0),
      (sin (- pi / 2 + ps), cos (- pi / 2 + ps), 0),
      (0, 0, 1))"

text \<open>\<^verbatim>\<open>calculateRotationInTrajectory\<close> of \<^verbatim>\<open>panda_interface/controller.cpp\<close>.\<close>

definition calculateRotationInTrajectory :: "'a controller_scheme \<Rightarrow> real \<Rightarrow> real \<Rightarrow> mat3" where
  "calculateRotationInTrajectory g t ps =
     (if inRange t (t_0 g) (t_1 g) then
        mat_mul3 (AngleAxisd_UnitZ (- pi / 4 * (t - t_0 g) / (t_1 g - t_0 g))) home_orientation
      else if inRange t (t_1 g) (t_2 g) then
        mat_mul3 (AngleAxisd_UnitZ (- pi / 4)) home_orientation
      else if inRange t (t_2 g) (t_3 g) then mat_mul3 (hit_rot ps) home_orientation
      else if inRange t (t_3 g) (t_4 g) then mat_mul3 (hit_rot ps) home_orientation
      else home_orientation)"

text \<open>The trajectory functions of \<^verbatim>\<open>panda_starter_code/controller.cpp\<close>, with its own
  offsets, home position, coin positions and home orientation; the strike angle is the
  constant \<open>135*pi/180\<close> there.\<close>

definition xh_starter :: vec3 where
  "xh_starter = (0.32, 0.35, 0.7)"

definition xc_starter :: vec3 where
  "xc_starter = (board_r * sin (- pi / 4) + 0.7, board_r * cos (- pi / 4) + 0, 0.5)"

definition xcd_starter :: vec3 where
  "xcd_starter = (board_r * sin (- 3 * pi / 4) + 0.7, board_r * cos (- 3 * pi / 4) + 0, 0.5)"

definition home_orientation_starter :: mat3 where
  "home_orientation_starter = ((1, 0, 0), (0, 0, -1), (0, 1, 0))"

definition calculatePointInTrajectory_starter :: "'a controller_scheme \<Rightarrow> real \<Rightarrow> vec3" where
  "calculatePointInTrajectory_starter g t =
     (if inRange t (t_0 g) (t_1 g) then
        add3 xh_starter (div3 (scale3 (sub3 xc_starter xh_starter) (t - 0)) 5)
      else if inRange t (t_1 g) (t_2 g) then
        (let x0 = x3 xc_starter;
             y0 = y3 xc_starter;
             xf = x3 xcd_starter;
             yf = y3 xcd_starter;
             t0 = atan2 (x0 - 0.7) (y0 - 0);
             tf = atan2 (xf - 0.7) (yf - 0);
             old_range = t_2 g - t_1 g;
             new_range = tf - t0;
             new_t = (((t - t_1 g) * new_range) / old_range) + t0
         in (board_r * sin new_t + 0.7, board_r * cos new_t + 0, z3 xc_starter))
      else if inRange t (t_2 g) (t_3 g) then xcd_starter
      else if inRange t (t_3 g) (t_4 g) then xcd_starter
      else xh_starter)"

definition calculateRotationInTrajectory_starter :: "'a controller_scheme \<Rightarrow> real \<Rightarrow> mat3" where
  "calculateRotationInTrajectory_starter g t =
     (if inRange t (t_0 g) (t_1 g) then home_orientation_starter
      else if inRange t (t_1 g) (t_2 g) then
        mat_mul3 (AngleAxisd_UnitZ (- pi / 2)) home_orientation_starter
      else if inRange t (t_2 g) (t_3 g) then
        mat_mul3 (hit_rot (135 * pi / 180.0)) home_orientation_starter
      else if inRange t (t_3 g) (t_4 g) then
        mat_mul3 (hit_rot (135 * pi / 180.0)) home_orientation_starter
      else home_orientation_starter)"

section \<open>The safety monitor\<close>

text \<open>Ways in which an iteration of the control loop does not complete: \<^verbatim>\<open>std::stod\<close>
  throws (nothing catches it), or a vector or array is read outside its bounds.\<close>

datatype error = Stod_exception | Index_out_of_range

text \<open>How a part of the program ends: with the variables as they are after it
  (\<open>Inr\<close>), or with an error and the variables as they were when it occurred
  (\<open>Inl\<close>).\<close>

type_synonym outcome = "(error \<times> controller) + controller"

definition joint_position_max :: "real list" where
  "joint_position_max = [2.7, 1.6, 2.7, -0.2, 2.7, 3.6, 2.7]"

definition joint_position_min :: "real list" where
  "joint_position_min = [-2.7, -1.6, -2.7, -3.0, -2.7, 0.2, -2.7]"

definition joint_velocity_limits :: "real list" where
  "joint_velocity_limits = [2.0, 2.0, 2.0, 2.0, 2.5, 2.5, 2.5]"

definition joint_torques_limits :: "real list" where
  "joint_torques_limits = [85, 85, 85, 85, 10, 10, 10]"

text \<open>The body of the loop of \<^verbatim>\<open>safetyChecks\<close> in \<^verbatim>\<open>panda_interface\<close>: four tests on joint
  \<open>i\<close>, each printing one line that ends with the joint number \<open>i + 1\<close>.\<close>

definition checks_of_joint :: "vecX \<Rightarrow> vecX \<Rightarrow> vecX \<Rightarrow> nat \<Rightarrow> (violation \<times> nat) list" where
  "checks_of_joint q dq tau i =
     (if q ! i > joint_position_max ! i then [(MAX_JOINT_POSITION, i + 1)] else []) @
     (if q ! i < joint_position_min ! i then [(MIN_JOINT_POSITION, i + 1)] else []) @
     (if \<bar>dq ! i\<bar> > joint_velocity_limits ! i then [(MAX_JOINT_VELOCITY, i + 1)] else []) @
     (if \<bar>tau ! i\<bar> > joint_torques_limits ! i then [(MAX_JOINT_TORQUE, i + 1)] else [])"

text \<open>The loop \<^verbatim>\<open>for (int i = 0; i < dof; i++)\<close> from index \<open>i\<close> on, with the lines printed
  so far. The limit arrays have seven entries; reading them or a vector outside the
  bounds is an error of the model.\<close>

function safetyChecks_from ::
  "vecX \<Rightarrow> vecX \<Rightarrow> vecX \<Rightarrow> nat \<Rightarrow> nat \<Rightarrow> (violation \<times> nat) list \<Rightarrow>
   error + (violation \<times> nat) list" where
  "safetyChecks_from q dq tau n i out =
     (if i < n then
        (if i < length q \<and> i < length dq \<and> i < length tau \<and> i < 7 then
           safetyChecks_from q dq tau n (i + 1) (out @ checks_of_joint q dq tau i)
         else Inl Index_out_of_range)
      else Inr out)"
  by pat_completeness auto
termination
  by (relation "measure (\<lambda>(q, dq, tau, n, i, out). n - i)") auto

text \<open>\<^verbatim>\<open>safetyChecks(q, dq, tau, dof)\<close> of \<^verbatim>\<open>panda_interface/controller.cpp\<close>: the lines
  it prints, in order.\<close>

definition safetyChecks ::
  "vecX \<Rightarrow> vecX \<Rightarrow> vecX \<Rightarrow> nat \<Rightarrow> error + (violation \<times> nat) list" where
  "safetyChecks q dq tau n = safetyChecks_from q dq tau n 0 []"

text \<open>\<^verbatim>\<open>safetyChecks\<close> of \<^verbatim>\<open>panda_starter_code/controller.cpp\<close>: the same four tests; the
  lines it prints do not name the joint.\<close>

definition checks_of_joint_starter :: "vecX \<Rightarrow> vecX \<Rightarrow> vecX \<Rightarrow> nat \<Rightarrow> violation list" where
  "checks_of_joint_starter q dq tau i =
     (if q ! i > joint_position_max ! i then [MAX_JOINT_POSITION] else []) @
     (if q ! i < joint_position_min ! i then [MIN_JOINT_POSITION] else []) @
     (if \<bar>dq ! i\<bar> > joint_velocity_limits ! i then [MAX_JOINT_VELOCITY] else []) @
     (if \<bar>tau ! i\<bar> > joint_torques_limits ! i then [MAX_JOINT_TORQUE] else [])"

function safetyChecks_starter_from ::
  "vecX \<Rightarrow> vecX \<Rightarrow> vecX \<Rightarrow> nat \<Rightarrow> nat \<Rightarrow> violation list \<Rightarrow> error + violation list" where
  "safetyChecks_starter_from q dq tau n i out =
     (if i < n then
        (if i < length q \<and> i < length dq \<and> i < length tau \<and> i < 7 then
           safetyChecks_starter_from q dq tau n (i + 1) (out @ checks_of_joint_starter q dq tau i)
         else Inl Index_out_of_range)
      else Inr out)"
  by pat_completeness auto
termination
  by (relation "measure (\<lambda>(q, dq, tau, n, i, out). n - i)") auto

definition safetyChecks_starter ::
  "vecX \<Rightarrow> vecX \<Rightarrow> vecX \<Rightarrow> nat \<Rightarrow> error + violation list" where
  "safetyChecks_starter q dq tau n = safetyChecks_starter_from q dq tau n 0 []"

section \<open>One iteration of the control loop\<close>

text \<open>
  What an iteration of \<^verbatim>\<open>while (runloop)\<close> takes from outside: the strings of the redis
  store as \<^verbatim>\<open>redis_client.get\<close> returns them in this iteration (\<open>redis_get\<close>, by key),
  the sensed joint angles and velocities that \<^verbatim>\<open>getEigenMatrixJSON\<close> reads from the same
  store, the pose quantities that the robot model returns for them (\<^verbatim>\<open>x\<close>, \<^verbatim>\<open>xdot\<close>, \<^verbatim>\<open>xddot\<close>,
  \<^verbatim>\<open>omega\<close>, \<^verbatim>\<open>alpha\<close>), and the torques that \<^verbatim>\<open>joint_task->computeTorques\<close> and
  \<^verbatim>\<open>posori_task->computeTorques\<close> return when they are called in this iteration. The
  control library computes the last two groups; they are inputs of the model.
\<close>

record tick_in =
  redis_get :: "string \<Rightarrow> string"
  sensed_q :: vecX
  sensed_dq :: vecX
  pos_x :: vec3
  vel_xdot :: vec3
  acc_xddot :: vec3
  vel_omega :: vec3
  acc_alpha :: vec3
  jt_torques :: vecX
  po_torques :: vecX

definition MODE_CHANGE_KEY :: string where
  "MODE_CHANGE_KEY = ''modechange''"

definition SHOT_ANGLE_KEY :: string where
  "SHOT_ANGLE_KEY = ''shotangle''"

definition SHOT_POS_KEY :: string where
  "SHOT_POS_KEY = ''shotpos''"

text \<open>\<^verbatim>\<open>JOINT_TORQUES_COMMANDED_KEY\<close>: \<^verbatim>\<open>flag_simulation\<close> is false in
  \<^verbatim>\<open>panda_interface\<close> and true in \<^verbatim>\<open>panda_starter_code\<close>.\<close>

definition JOINT_TORQUES_COMMANDED_KEY :: string where
  "JOINT_TORQUES_COMMANDED_KEY = ''sai2::FrankaPanda::actuators::fgc''"

definition JOINT_TORQUES_COMMANDED_KEY_starter :: string where
  "JOINT_TORQUES_COMMANDED_KEY_starter = ''sai2::cs225a::panda_robot::actuators::fgc''"

definition ee_length :: real where
  "ee_length = 17.70 * 0.0254"

definition q_init_desired :: vecX where
  "q_init_desired = [0.004, -0.44, 0.315, -1.63, 1.53, 2.15, -0.33]"

definition q_init_desired_starter :: vecX where
  "q_init_desired_starter =
     map (\<lambda>d. d * (pi / 180.0)) [-30.0, -15.0, -15.0, -105.0, 0.0, 90.0, 45.0]"

text \<open>\<^verbatim>\<open>s.find(c)\<close>: the index of the first occurrence, \<open>None\<close> for \<^verbatim>\<open>npos\<close>.\<close>

fun str_find :: "char \<Rightarrow> string \<Rightarrow> nat option" where
  "str_find c [] = None"
| "str_find c (x # xs) = (if x = c then Some 0 else map_option Suc (str_find c xs))"

text \<open>
  The two fields of the shot position: \<^verbatim>\<open>shot_pos.substr(0, delimiter)\<close> and
  \<^verbatim>\<open>shot_pos.substr(delimiter + 1, shot_pos.length())\<close> with
  \<^verbatim>\<open>int delimiter = shot_pos.find(",")\<close>. Without a comma \<^verbatim>\<open>delimiter\<close> is -1: the first
  count is then \<^verbatim>\<open>npos\<close> and the second start is 0, so both fields are the whole string.
\<close>

definition shot_pos_fields :: "string \<Rightarrow> string \<times> string" where
  "shot_pos_fields shot_pos =
     (case str_find (CHR '','') shot_pos of
        None \<Rightarrow> (shot_pos, shot_pos)
      | Some delimiter \<Rightarrow> (take delimiter shot_pos, drop (delimiter + 1) shot_pos))"

text \<open>
  The branch \<^verbatim>\<open>mode == WAIT_MODE\<close> of \<^verbatim>\<open>panda_interface\<close>. \<open>stod\<close> stands for
  \<^verbatim>\<open>std::stod\<close>, a parameter of the model: \<open>None\<close> where it throws. The mode is set
  before the shot strings are parsed. The comma initialiser of \<^verbatim>\<open>cue_start_pos\<close> takes its
  operands from left to right and stores each as it comes. \<^verbatim>\<open>hit_velocity\<close> is read here;
  no statement of the program assigns it.
\<close>

definition wait_mode ::
  "(string \<Rightarrow> real option) \<Rightarrow> tick_in \<Rightarrow> controller \<Rightarrow> outcome" where
  "wait_mode stod e s =
     (let s1 = s\<lparr>joint_task_torques := jt_torques e\<rparr>;
          s2 = s1\<lparr>command_torques := joint_task_torques s1\<rparr>
      in if redis_get e MODE_CHANGE_KEY = ''execute'' then
           (let s3 = s2\<lparr>mode := EXECUTE_MODE\<rparr>;
                shot_pos = redis_get e SHOT_POS_KEY;
                shot_ang = redis_get e SHOT_ANGLE_KEY
            in case stod (fst (shot_pos_fields shot_pos)) of
                 None \<Rightarrow> Inl (Stod_exception, s3)
               | Some px \<Rightarrow>
                  (let s4 = s3\<lparr>cue_start_pos := (0.001 * px, snd (cue_start_pos s3))\<rparr>
                   in case stod (snd (shot_pos_fields shot_pos)) of
                        None \<Rightarrow> Inl (Stod_exception, s4)
                      | Some py \<Rightarrow>
                         (let s5 = s4\<lparr>cue_start_pos := (0.001 * px, 0.001 * py, 0, 1)\<rparr>
                          in case stod shot_ang of
                               None \<Rightarrow> Inl (Stod_exception, s5)
                             | Some ps \<Rightarrow>
                                (let s6 = s5\<lparr>psi := ps\<rparr>;
                                     s7 = (if psi s6 \<le> 1.571 \<and> psi s6 \<ge> 1.569
                                           then s6\<lparr>centershot := True\<rparr> else s6);
                                     s8 = s7\<lparr>swing_angle := 120 * pi / 180.0\<rparr>;
                                     s9 = s8\<lparr>shot_angular_velocity :=
                                               hit_velocity s8 / ee_length\<rparr>;
                                     s10 = s9\<lparr>main_a := swing_angle s9 / 2.0\<rparr>;
                                     s11 = s10\<lparr>main_w :=
                                                 shot_angular_velocity s10 / main_a s10\<rparr>
                                 in Inr s11))))
         else Inr s2)"

text \<open>The branch \<^verbatim>\<open>state == JOINT_CONTROLLER\<close> of \<^verbatim>\<open>panda_interface\<close>.\<close>

definition joint_controller :: "tick_in \<Rightarrow> controller \<Rightarrow> controller" where
  "joint_controller e s =
     (let s1 = s\<lparr>joint_task_torques := jt_torques e\<rparr>;
          s2 = s1\<lparr>command_torques := joint_task_torques s1\<rparr>
      in if vnorm (vminus (sensed_q e) q_init_desired) < 0.15 then
           (let s3 = s2\<lparr>controller_counter := 0\<rparr>;
                s4 = s3\<lparr>desired_position := calculatePointInTrajectory s3 0\<rparr>;
                s5 = s4\<lparr>desired_orientation := calculateRotationInTrajectory s4 0 (psi s4)\<rparr>
            in s5\<lparr>state := POSORI_CONTROLLER\<rparr>)
         else s2)"

text \<open>The branch \<^verbatim>\<open>state == POSORI_CONTROLLER\<close> of \<^verbatim>\<open>panda_interface\<close>; \<open>t\<close> is
  \<^verbatim>\<open>controller_counter * dt\<close> as computed at the top of the iteration.\<close>

definition posori_controller :: "real \<Rightarrow> tick_in \<Rightarrow> controller \<Rightarrow> outcome" where
  "posori_controller t e s =
     (let s1 = (if robotReachedGoal (toX (pos_x e)) (toX (calculatePointInTrajectory s 100))
                     (toX (vel_xdot e)) (toX (acc_xddot e)) (toX (vel_omega e))
                     (toX (acc_alpha e)) \<and> t > t_4 s
                then s\<lparr>mode := WAIT_MODE,
                       redis_writes := redis_writes s @ [Set_string MODE_CHANGE_KEY ''wait''],
                       state := JOINT_CONTROLLER\<rparr>
                else s)
      in case (if t > t_3 s1 \<and> t < t_3 s1 + total_time s1 then
                 (if 1 \<le> dof s1 \<and> dof s1 - 1 < length (sensed_q e)
                  then Inr (s1\<lparr>state := JOINT_CONTROLLER_SHOT,
                                theta_mid := sensed_q e ! (dof s1 - 1)\<rparr>)
                  else Inl (Index_out_of_range, s1))
               else Inr s1) of
           Inl err \<Rightarrow> Inl err
         | Inr s2 \<Rightarrow>
            (let s3 = s2\<lparr>desired_position := calculatePointInTrajectory s2 t\<rparr>;
                 s4 = s3\<lparr>desired_orientation := calculateRotationInTrajectory s3 t (psi s3)\<rparr>;
                 s5 = s4\<lparr>posori_task_torques := po_torques e\<rparr>;
                 s6 = s5\<lparr>joint_task_torques := jt_torques e\<rparr>
             in Inr (s6\<lparr>command_torques :=
                          map2 (+) (posori_task_torques s6) (joint_task_torques s6)\<rparr>)))"

text \<open>The branch \<^verbatim>\<open>state == JOINT_CONTROLLER_SHOT\<close> of \<^verbatim>\<open>panda_interface\<close>.\<close>

definition joint_controller_shot :: "real \<Rightarrow> tick_in \<Rightarrow> controller \<Rightarrow> controller" where
  "joint_controller_shot t e s =
     (let s1 = (if t > t_3 s \<and> t < t_4 s then s\<lparr>command_time := 0.0\<rparr>
                else if (t - t_4 s) \<le> total_time s then s\<lparr>command_time := command_time s + 1\<rparr>
                else s);
          s2 = s1\<lparr>joint_task_torques := jt_torques e\<rparr>;
          s3 = s2\<lparr>command_torques := joint_task_torques s2\<rparr>
      in if t > (t_4 s3 + total_time s3) then
           (let s4 = s3\<lparr>centershot := False\<rparr>;
                s5 = s4\<lparr>desired_position := calculatePointInTrajectory s4 t\<rparr>;
                s6 = s5\<lparr>desired_orientation := calculateRotationInTrajectory s5 t (psi s5)\<rparr>
            in s6\<lparr>state := POSORI_CONTROLLER\<rparr>)
         else s3)"

text \<open>The branch \<^verbatim>\<open>mode == EXECUTE_MODE\<close> of \<^verbatim>\<open>panda_interface\<close>: the branch of the
  current \<^verbatim>\<open>state\<close>, then \<^verbatim>\<open>safetyChecks\<close> and \<^verbatim>\<open>controller_counter++\<close>.\<close>

definition execute_mode :: "real \<Rightarrow> tick_in \<Rightarrow> controller \<Rightarrow> outcome" where
  "execute_mode t e s =
     (case (case state s of
              JOINT_CONTROLLER \<Rightarrow> Inr (joint_controller e s)
            | POSORI_CONTROLLER \<Rightarrow> posori_controller t e s
            | JOINT_CONTROLLER_SHOT \<Rightarrow> Inr (joint_controller_shot t e s)
            | END_SHOT \<Rightarrow> Inr s) of
        Inl err \<Rightarrow> Inl err
      | Inr s1 \<Rightarrow>
         (case safetyChecks (sensed_q e) (sensed_dq e) (command_torques s1) (dof s1) of
            Inl err \<Rightarrow> Inl (err, s1)
          | Inr out \<Rightarrow>
             Inr (s1\<lparr>reports := reports s1 @ map (\<lambda>(v, j). (v, Some j)) out,
                     controller_counter := controller_counter s1 + 1\<rparr>)))"

text \<open>The body of \<^verbatim>\<open>while (runloop)\<close> in \<^verbatim>\<open>panda_interface\<close>: \<open>dt = 0.001\<close>,
  \<open>t = controller_counter * dt\<close>, the branch of the current mode, and the publication of
  the commanded torques.\<close>

definition tick ::
  "(string \<Rightarrow> real option) \<Rightarrow> tick_in \<Rightarrow> controller \<Rightarrow> outcome" where
  "tick stod e s =
     (let dt = 0.001;
          t = real (controller_counter s) * dt
      in case (case mode s of
                 WAIT_MODE \<Rightarrow> wait_mode stod e s
               | EXECUTE_MODE \<Rightarrow> execute_mode t e s) of
           Inl err \<Rightarrow> Inl err
         | Inr s1 \<Rightarrow>
            Inr (s1\<lparr>redis_writes := redis_writes s1 @
                   [Set_matrix JOINT_TORQUES_COMMANDED_KEY (command_torques s1)]\<rparr>))"

text \<open>The same branches in \<^verbatim>\<open>panda_starter_code\<close>. Its wait branch does not call
  \<^verbatim>\<open>computeTorques\<close> and reads no shot parameters; it resets the counter when the shot
  begins.\<close>

definition wait_mode_starter :: "tick_in \<Rightarrow> controller \<Rightarrow> controller" where
  "wait_mode_starter e s =
     (let s1 = s\<lparr>command_torques := joint_task_torques s\<rparr>
      in if redis_get e MODE_CHANGE_KEY = ''execute'' then s1\<lparr>mode := EXECUTE_MODE\<rparr> else s1)"

definition joint_controller_starter :: "real \<Rightarrow> tick_in \<Rightarrow> controller \<Rightarrow> controller" where
  "joint_controller_starter t e s =
     (let s1 = s\<lparr>joint_task_torques := jt_torques e\<rparr>;
          s2 = s1\<lparr>command_torques := joint_task_torques s1\<rparr>
      in if vnorm (vminus (sensed_q e) q_init_desired_starter) < 0.15 then
           (let s3 = s2\<lparr>desired_position := calculatePointInTrajectory_starter s2 t\<rparr>;
                s4 = s3\<lparr>desired_orientation := calculateRotationInTrajectory_starter s3 t\<rparr>;
                s5 = s4\<lparr>state := POSORI_CONTROLLER\<rparr>
            in s5\<lparr>controller_counter := 0\<rparr>)
         else s2)"

definition posori_controller_starter :: "real \<Rightarrow> tick_in \<Rightarrow> controller \<Rightarrow> controller" where
  "posori_controller_starter t e s =
     (let s1 = (if robotReachedGoal_starter (toX (pos_x e))
                     (toX (calculatePointInTrajectory_starter s 100))
                     (toX (vel_xdot e)) (toX (acc_xddot e)) (toX (vel_omega e))
                     (toX (acc_alpha e)) \<and> t > t_4 s
                then s\<lparr>mode := WAIT_MODE,
                       redis_writes := redis_writes s @ [Set_string MODE_CHANGE_KEY ''wait''],
                       state := JOINT_CONTROLLER\<rparr>
                else s);
          s2 = (if t > t_3 s1 \<and> t < t_3 s1 + total_time s1
                then s1\<lparr>state := JOINT_CONTROLLER_SHOT, controller_counter := 0\<rparr>
                else s1);
          s3 = s2\<lparr>desired_position := calculatePointInTrajectory_starter s2 t\<rparr>;
          s4 = s3\<lparr>desired_orientation := calculateRotationInTrajectory_starter s3 t\<rparr>;
          s5 = s4\<lparr>posori_task_torques := po_torques e\<rparr>;
          s6 = s5\<lparr>joint_task_torques := jt_torques e\<rparr>
      in s6\<lparr>command_torques := map2 (+) (posori_task_torques s6) (joint_task_torques s6)\<rparr>)"

definition joint_controller_shot_starter :: "real \<Rightarrow> tick_in \<Rightarrow> controller \<Rightarrow> controller" where
  "joint_controller_shot_starter t e s =
     (let s1 = s\<lparr>joint_task_torques := jt_torques e\<rparr>;
          s2 = s1\<lparr>command_torques := joint_task_torques s1\<rparr>
      in if t > (t_3 s2 + total_time s2) then
           (let s3 = s2\<lparr>desired_position := calculatePointInTrajectory_starter s2 t\<rparr>;
                s4 = s3\<lparr>desired_orientation := calculateRotationInTrajectory_starter s3 t\<rparr>
            in s4\<lparr>state := POSORI_CONTROLLER\<rparr>)
         else s2)"

text \<open>The branch \<^verbatim>\<open>mode == EXECUTE_MODE\<close> of \<^verbatim>\<open>panda_starter_code\<close>; the commanded
  torques are published inside this branch only.\<close>

definition execute_mode_starter :: "real \<Rightarrow> tick_in \<Rightarrow> controller \<Rightarrow> outcome" where
  "execute_mode_starter t e s =
     (let s1 = (case state s of
                  JOINT_CONTROLLER \<Rightarrow> joint_controller_starter t e s
                | POSORI_CONTROLLER \<Rightarrow> posori_controller_starter t e s
                | JOINT_CONTROLLER_SHOT \<Rightarrow> joint_controller_shot_starter t e s
                | END_SHOT \<Rightarrow> s)
      in case safetyChecks_starter (sensed_q e) (sensed_dq e) (command_torques s1) (dof s1) of
           Inl err \<Rightarrow> Inl (err, s1)
         | Inr out \<Rightarrow>
            (let s2 = s1\<lparr>reports := reports s1 @ map (\<lambda>v. (v, None)) out\<rparr>;
                 s3 = s2\<lparr>redis_writes := redis_writes s2 @
                        [Set_matrix JOINT_TORQUES_COMMANDED_KEY_starter (command_torques s2)]\<rparr>
             in Inr (s3\<lparr>controller_counter := controller_counter s3 + 1\<rparr>)))"

definition tick_starter :: "tick_in \<Rightarrow> controller \<Rightarrow> outcome" where
  "tick_starter e s =
     (let dt = 0.001;
          t = real (controller_counter s) * dt
      in case mode s of
           WAIT_MODE \<Rightarrow> Inr (wait_mode_starter e s)
         | EXECUTE_MODE \<Rightarrow> execute_mode_starter t e s)"

section \<open>The control loop and the program\<close>

text \<open>
  \<^verbatim>\<open>while (runloop) { ... }\<close>: a signal handler clears \<^verbatim>\<open>runloop\<close>, and the loop sees it
  at the top of the next iteration. The list holds the inputs of the iterations that run
  before that, in order; the loop stops early when an iteration does not complete.
\<close>

fun run_loop ::
  "(string \<Rightarrow> real option) \<Rightarrow> tick_in list \<Rightarrow> controller \<Rightarrow> outcome" where
  "run_loop stod [] s = Inr s"
| "run_loop stod (e # es) s =
     (case tick stod e s of Inl err \<Rightarrow> Inl err | Inr s1 \<Rightarrow> run_loop stod es s1)"

fun run_loop_starter :: "tick_in list \<Rightarrow> controller \<Rightarrow> outcome" where
  "run_loop_starter [] s = Inr s"
| "run_loop_starter (e # es) s =
     (case tick_starter e s of Inl err \<Rightarrow> Inl err | Inr s1 \<Rightarrow> run_loop_starter es s1)"

text \<open>
  The variables as \<^verbatim>\<open>main\<close> of \<^verbatim>\<open>panda_interface\<close> has them when the loop starts. \<open>u\<close>
  gives what the program does not set: the number of joints \<^verbatim>\<open>robot->dof()\<close>, the pose
  target that the constructor of the pose task chose, and the contents of the locals
  declared without a value (\<^verbatim>\<open>hit_velocity\<close>, \<^verbatim>\<open>swing_angle\<close>, \<^verbatim>\<open>a\<close>, \<^verbatim>\<open>w\<close>,
  \<^verbatim>\<open>command_time\<close>).
\<close>

definition initial :: "controller \<Rightarrow> controller" where
  "initial u =
     u\<lparr>mode := WAIT_MODE, state := JOINT_CONTROLLER, controller_counter := 0,
       t_0 := 0, t_1 := 4, t_2 := 8, t_3 := 12, t_4 := 13,
       theta_mid := -1.03 + 0.2, cue_start_pos := (0, 0, 0, 0), centershot := False,
       psi := 90 * pi / 180.0, total_time := 1.3, shot_angular_velocity := 0,
       command_torques := replicate (dof u) 0,
       joint_task_torques := replicate (dof u) 0,
       posori_task_torques := replicate (dof u) 0,
       redis_writes := [], reports := []\<rparr>"

text \<open>\<^verbatim>\<open>flick_time\<close> of \<^verbatim>\<open>panda_starter_code\<close>. (With \<open>hit_velocity = 0\<close> the program
  divides by zero; real division gives 0 there.)\<close>

definition flick_time_starter :: "real \<Rightarrow> real \<Rightarrow> real \<Rightarrow> real \<Rightarrow> real" where
  "flick_time_starter start_angle end_angle hv len =
     (let angle_range = \<bar>end_angle - start_angle\<bar>;
          tt = angle_range * len / hv
      in tt)"

definition ee_length_starter :: real where
  "ee_length_starter = 4.5 * 0.0254"

text \<open>The variables of \<^verbatim>\<open>panda_starter_code\<close> when its loop starts; \<open>hv\<close> and
  \<open>start_angle_deg\<close> are the two numbers read from standard input.\<close>

definition initial_starter :: "controller \<Rightarrow> real \<Rightarrow> real \<Rightarrow> controller" where
  "initial_starter u hv start_angle_deg =
     (let start_angle = start_angle_deg * pi / 180.0;
          end_angle = start_angle + 180.0
      in u\<lparr>mode := WAIT_MODE, state := JOINT_CONTROLLER, controller_counter := 0,
            t_0 := 0, t_1 := 5, t_2 := 10, t_3 := 15, t_4 := 20,
            hit_velocity := hv,
            total_time := flick_time_starter start_angle end_angle hv ee_length_starter,
            command_torques := replicate (dof u) 0,
            joint_task_torques := replicate (dof u) 0,
            posori_task_torques := replicate (dof u) 0,
            redis_writes := [], reports := []\<rparr>)"

text \<open>What follows the loop in \<^verbatim>\<open>panda_interface\<close>: \<^verbatim>\<open>command_torques.setZero()\<close> and its
  publication.\<close>

definition after_loop :: "controller \<Rightarrow> controller" where
  "after_loop s =
     (let s1 = s\<lparr>command_torques := map (\<lambda>c. 0) (command_torques s)\<rparr>
      in s1\<lparr>redis_writes := redis_writes s1 @
              [Set_matrix JOINT_TORQUES_COMMANDED_KEY (command_torques s1)]\<rparr>)"

text \<open>What follows the loop in \<^verbatim>\<open>panda_starter_code\<close>: \<^verbatim>\<open>command_torques.setZero()\<close>
  alone.\<close>

definition after_loop_starter :: "controller \<Rightarrow> controller" where
  "after_loop_starter s = s\<lparr>command_torques := map (\<lambda>c. 0) (command_torques s)\<rparr>"

text \<open>\<^verbatim>\<open>main\<close> of the two programs, from the start of the loop to the return, for a run
  that a signal ends after the iterations of the list.\<close>

definition main ::
  "(string \<Rightarrow> real option) \<Rightarrow> controller \<Rightarrow> tick_in list \<Rightarrow> outcome" where
  "main stod u ins =
     (case run_loop stod ins (initial u) of
        Inl err \<Rightarrow> Inl err
      | Inr s \<Rightarrow> Inr (after_loop s))"

definition main_starter ::
  "controller \<Rightarrow> real \<Rightarrow> real \<Rightarrow> tick_in list \<Rightarrow> outcome" where
  "main_starter u hv start_angle_deg ins =
     (case run_loop_starter ins (initial_starter u hv start_angle_deg) of
        Inl err \<Rightarrow> Inl err
      | Inr s \<Rightarrow> Inr (after_loop_starter s))"

section \<open>Notions used in the statements\<close>

text \<open>The inputs of an iteration have the sizes that the reads of the program need:
  between one and seven joints, and at least that many coefficients in the sensed and
  the computed vectors.\<close>

definition sized :: "tick_in \<Rightarrow> controller \<Rightarrow> bool" where
  "sized e s \<longleftrightarrow> 1 \<le> dof s \<and> dof s \<le> 7 \<and> dof s \<le> length (sensed_q e) \<and>
     dof s \<le> length (sensed_dq e) \<and> dof s \<le> length (jt_torques e) \<and>
     dof s \<le> length (po_torques e)"

text \<open>The five boundaries of the time slots.\<close>

definition slots :: "controller \<Rightarrow> real \<times> real \<times> real \<times> real \<times> real" where
  "slots s = (t_0 s, t_1 s, t_2 s, t_3 s, t_4 s)"

definition same_consts :: "controller \<Rightarrow> controller \<Rightarrow> bool" where
  "same_consts s s' \<longleftrightarrow> slots s' = slots s \<and> total_time s' = total_time s \<and> dof s' = dof s"

text \<open>The transition conditions, as the branches of the two programs test them: the
  joint error of the approach, and the goal-reached predicate at the last point of the
  trajectory.\<close>

definition joint_goal :: "tick_in \<Rightarrow> bool" where
  "joint_goal e \<longleftrightarrow> vnorm (vminus (sensed_q e) q_init_desired) < 0.15"

definition reached :: "tick_in \<Rightarrow> controller \<Rightarrow> bool" where
  "reached e s \<longleftrightarrow>
     robotReachedGoal (toX (pos_x e)) (toX (calculatePointInTrajectory s 100))
       (toX (vel_xdot e)) (toX (acc_xddot e)) (toX (vel_omega e)) (toX (acc_alpha e))"

definition home_reached :: "tick_in \<Rightarrow> bool" where
  "home_reached e \<longleftrightarrow>
     robotReachedGoal (toX (pos_x e)) (toX xh)
       (toX (vel_xdot e)) (toX (acc_xddot e)) (toX (vel_omega e)) (toX (acc_alpha e))"

definition joint_goal_starter :: "tick_in \<Rightarrow> bool" where
  "joint_goal_starter e \<longleftrightarrow> vnorm (vminus (sensed_q e) q_init_desired_starter) < 0.15"

definition reached_starter :: "tick_in \<Rightarrow> controller \<Rightarrow> bool" where
  "reached_starter e s \<longleftrightarrow>
     robotReachedGoal_starter (toX (pos_x e)) (toX (calculatePointInTrajectory_starter s 100))
       (toX (vel_xdot e)) (toX (acc_xddot e)) (toX (vel_omega e)) (toX (acc_alpha e))"

definition home_reached_starter :: "tick_in \<Rightarrow> bool" where
  "home_reached_starter e \<longleftrightarrow>
     robotReachedGoal_starter (toX (pos_x e)) (toX xh_starter)
       (toX (vel_xdot e)) (toX (acc_xddot e)) (toX (vel_omega e)) (toX (acc_alpha e))"

text \<open>
  The course of one execute cycle of \<^verbatim>\<open>panda_interface\<close>, following the specification:
  the mode and the phase after \<open>k\<close> iterations, when iteration \<open>n1\<close> is the one that sees
  the joint goal and iteration \<open>n4\<close> the one that sees the final goal. Approach is
  \<^verbatim>\<open>JOINT_CONTROLLER\<close>, track and return are \<^verbatim>\<open>POSORI_CONTROLLER\<close> before and after the
  shot, shot is \<^verbatim>\<open>JOINT_CONTROLLER_SHOT\<close>. The track phase lasts 12001 iterations and the
  shot 2300.
\<close>

definition phase_at :: "nat \<Rightarrow> nat \<Rightarrow> nat \<Rightarrow> mode_t \<times> state_t" where
  "phase_at n1 n4 k =
     (if k \<le> n1 then (EXECUTE_MODE, JOINT_CONTROLLER)
      else if k \<le> n1 + 12001 then (EXECUTE_MODE, POSORI_CONTROLLER)
      else if k \<le> n1 + 14301 then (EXECUTE_MODE, JOINT_CONTROLLER_SHOT)
      else if k \<le> n4 then (EXECUTE_MODE, POSORI_CONTROLLER)
      else (WAIT_MODE, JOINT_CONTROLLER))"

text \<open>The time slots and the shot duration of \<^verbatim>\<open>panda_interface\<close>.\<close>

definition cycle_consts :: "controller \<Rightarrow> bool" where
  "cycle_consts s \<longleftrightarrow> slots s = (0, 4, 8, 12, 13) \<and> total_time s = 1.3"

text \<open>Every transition condition holds at some iteration: \<open>n1\<close> is the first iteration
  that sees the joint goal, and \<open>n4\<close> the first iteration of the return phase that sees
  the final goal.\<close>

definition cycle_inputs :: "nat \<Rightarrow> nat \<Rightarrow> tick_in list \<Rightarrow> bool" where
  "cycle_inputs n1 n4 ins \<longleftrightarrow>
     joint_goal (ins ! n1) \<and> (\<forall>k<n1. \<not> joint_goal (ins ! k)) \<and>
     n1 + 14302 \<le> n4 \<and> n4 < length ins \<and> home_reached (ins ! n4) \<and>
     (\<forall>k. n1 + 14302 \<le> k \<and> k < n4 \<longrightarrow> \<not> home_reached (ins ! k))"

definition cycle_inv :: "nat \<Rightarrow> nat \<Rightarrow> nat \<Rightarrow> controller \<Rightarrow> bool" where
  "cycle_inv n1 n4 k s \<longleftrightarrow>
     (mode s, state s) = phase_at n1 n4 k \<and>
     (n1 < k \<and> k \<le> n4 \<longrightarrow> controller_counter s = k - n1)"

text \<open>
  The same for \<^verbatim>\<open>panda_starter_code\<close>, whose slots end at 15 and 20 seconds and whose
  shot duration \<^verbatim>\<open>total_time\<close> comes from its input. Its counter restarts when the shot
  begins, so the shot lasts until the counter passes \<open>1000 * (15 + total_time)\<close>:
  \<open>shot_ticks + 1\<close> iterations. The return phase ends at the first iteration that sees
  the final goal with the restarted counter above 20000.
\<close>

definition shot_ticks :: "controller \<Rightarrow> nat" where
  "shot_ticks s = nat \<lfloor>1000 * (15 + total_time s)\<rfloor>"

definition phase_at_starter :: "nat \<Rightarrow> nat \<Rightarrow> nat \<Rightarrow> nat \<Rightarrow> mode_t \<times> state_t" where
  "phase_at_starter n1 K n4 k =
     (if k \<le> n1 then (EXECUTE_MODE, JOINT_CONTROLLER)
      else if k \<le> n1 + 15001 then (EXECUTE_MODE, POSORI_CONTROLLER)
      else if k \<le> n1 + 15002 + K then (EXECUTE_MODE, JOINT_CONTROLLER_SHOT)
      else if k \<le> n4 then (EXECUTE_MODE, POSORI_CONTROLLER)
      else (WAIT_MODE, JOINT_CONTROLLER))"

definition cycle_consts_starter :: "controller \<Rightarrow> bool" where
  "cycle_consts_starter s \<longleftrightarrow> slots s = (0, 5, 10, 15, 20) \<and> total_time s > 0.001"

definition cycle_inputs_starter :: "nat \<Rightarrow> nat \<Rightarrow> nat \<Rightarrow> tick_in list \<Rightarrow> bool" where
  "cycle_inputs_starter n1 K n4 ins \<longleftrightarrow>
     joint_goal_starter (ins ! n1) \<and> (\<forall>k<n1. \<not> joint_goal_starter (ins ! k)) \<and>
     n1 + 15003 + K \<le> n4 \<and> n1 + 35001 < n4 \<and> n4 < length ins \<and>
     home_reached_starter (ins ! n4) \<and>
     (\<forall>k. n1 + 15003 + K \<le> k \<and> n1 + 35001 < k \<and> k < n4 \<longrightarrow>
          \<not> home_reached_starter (ins ! k))"

definition cycle_inv_starter :: "nat \<Rightarrow> nat \<Rightarrow> nat \<Rightarrow> nat \<Rightarrow> controller \<Rightarrow> bool" where
  "cycle_inv_starter n1 K n4 k s \<longleftrightarrow>
     (mode s, state s) = phase_at_starter n1 K n4 k \<and>
     (n1 < k \<and> k \<le> n1 + 15001 \<longrightarrow> controller_counter s = k - n1) \<and>
     (n1 + 15001 < k \<and> k \<le> n4 \<longrightarrow> controller_counter s = k - (n1 + 15001))"

text \<open>When a quantity of joint \<open>i\<close> is out of its limit, in the words of the
  specification: strictly above the maximum, strictly below the minimum, or with an
  absolute value strictly above the limit.\<close>

fun violates :: "vecX \<Rightarrow> vecX \<Rightarrow> vecX \<Rightarrow> violation \<Rightarrow> nat \<Rightarrow> bool" where
  "violates q dq tau MAX_JOINT_POSITION i = (q ! i > joint_position_max ! i)"
| "violates q dq tau MIN_JOINT_POSITION i = (q ! i < joint_position_min ! i)"
| "violates q dq tau MAX_JOINT_VELOCITY i = (\<bar>dq ! i\<bar> > joint_velocity_limits ! i)"
| "violates q dq tau MAX_JOINT_TORQUE i = (\<bar>tau ! i\<bar> > joint_torques_limits ! i)"

text \<open>The shot parameters that an activation captures, and whether the three numbers
  of the shot strings parse.\<close>

definition shot_parameters ::
  "controller \<Rightarrow> vec4 \<times> real \<times> bool \<times> real \<times> real \<times> real \<times> real" where
  "shot_parameters s =
     (cue_start_pos s, psi s, centershot s, swing_angle s, shot_angular_velocity s,
      main_a s, main_w s)"

text \<open>The mode variable when an iteration has ended, completed or not.\<close>

definition mode_after :: "outcome \<Rightarrow> mode_t" where
  "mode_after r = (case r of Inl (err, s) \<Rightarrow> mode s | Inr s \<Rightarrow> mode s)"

definition shot_strings_parse :: "(string \<Rightarrow> real option) \<Rightarrow> tick_in \<Rightarrow> bool" where
  "shot_strings_parse stod e \<longleftrightarrow>
     stod (fst (shot_pos_fields (redis_get e SHOT_POS_KEY))) \<noteq> None \<and>
     stod (snd (shot_pos_fields (redis_get e SHOT_POS_KEY))) \<noteq> None \<and>
     stod (redis_get e SHOT_ANGLE_KEY) \<noteq> None"

text \<open>
  The end of the arc of \<^verbatim>\<open>calculatePointInTrajectory\<close>: the point of the board circle
  in the direction of the drop-off point. And the drop-off points
  \<^verbatim>\<open>(x, y, 0, 1)\<close> that lie on the board circle.
\<close>

definition arc_end :: "'a controller_scheme \<Rightarrow> vec3" where
  "arc_end g =
     (let tf = atan2 (x3 (xcd g) - x_offset) (y3 (xcd g) - y_offset)
      in (board_r * sin tf + x_offset, board_r * cos tf + y_offset, z3 xc))"

definition on_board_circle :: "'a controller_scheme \<Rightarrow> bool" where
  "on_board_circle g \<longleftrightarrow>
     (case cue_start_pos g of (cx, cy, cz, cw) \<Rightarrow>
        cx\<^sup>2 + cy\<^sup>2 = board_r\<^sup>2 \<and> cz = 0 \<and> cw = 1)"

section \<open>Example inputs\<close>

text \<open>A memory content with seven joints and zeros elsewhere.\<close>

definition memory0 :: controller where
  "memory0 =
     \<lparr>mode = WAIT_MODE, state = JOINT_CONTROLLER, controller_counter = 0,
      t_0 = 0, t_1 = 0, t_2 = 0, t_3 = 0, t_4 = 0, theta_mid = 0,
      cue_start_pos = (0, 0, 0, 0), centershot = False, dof = 7, psi = 0,
      hit_velocity = 0, swing_angle = 0, total_time = 0, shot_angular_velocity = 0,
      main_a = 0, main_w = 0, command_time = 0, command_torques = [],
      joint_task_torques = [], posori_task_torques = [],
      desired_position = (0, 0, 0), desired_orientation = ((0, 0, 0), (0, 0, 0), (0, 0, 0)),
      redis_writes = [], reports = []\<rparr>"

text \<open>An iteration that reads \<open>token\<close> under the mode key, the shot position
  \<open>100,50\<close> and the shot angle \<open>1.5708\<close>, with the arm at rest in the ready posture \<open>q\<close>
  and its end effector at \<open>x\<close>.\<close>

definition example_in :: "string \<Rightarrow> vecX \<Rightarrow> vec3 \<Rightarrow> tick_in" where
  "example_in token q x =
     \<lparr>redis_get = (\<lambda>key. if key = MODE_CHANGE_KEY then token
                         else if key = SHOT_POS_KEY then ''100,50''
                         else if key = SHOT_ANGLE_KEY then ''1.5708'' else []),
      sensed_q = q, sensed_dq = [0, 0, 0, 0, 0, 0, 0],
      pos_x = x, vel_xdot = (0, 0, 0), acc_xddot = (0, 0, 0),
      vel_omega = (0, 0, 0), acc_alpha = (0, 0, 0),
      jt_torques = [0, 0, 0, 0, 0, 0, 0], po_torques = [0, 0, 0, 0, 0, 0, 0]\<rparr>"

text \<open>What \<^verbatim>\<open>std::stod\<close> returns on the three strings of the example; it is not asked
  for any other string there.\<close>

definition example_stod :: "string \<Rightarrow> real option" where
  "example_stod str =
     (if str = ''100'' then Some 100
      else if str = ''50'' then Some 50
      else if str = ''1.5708'' then Some 1.5708
      else None)"

text \<open>The globals after an activation with the shot position \<open>100,50\<close>, and with a
  drop-off point on the board circle.\<close>

definition example_shot :: controller where
  "example_shot = (initial memory0)\<lparr>cue_start_pos := (0.1, 0.05, 0, 1)\<rparr>"

definition example_circle_shot :: controller where
  "example_circle_shot = (initial memory0)\<lparr>cue_start_pos := (board_r, 0, 0, 1)\<rparr>"

section \<open>Properties\<close>

section \<open>Lemmas on the safety monitor\<close>

declare safetyChecks_from.simps [simp del] safetyChecks_starter_from.simps [simp del]

lemma safetyChecks_from_eq:
  "n \<le> 7 \<Longrightarrow> n \<le> length q \<Longrightarrow> n \<le> length dq \<Longrightarrow> n \<le> length tau \<Longrightarrow> i \<le> n \<Longrightarrow>
   safetyChecks_from q dq tau n i out =
     Inr (out @ concat (map (checks_of_joint q dq tau) [i..<n]))"
proof (induction q dq tau n i out rule: safetyChecks_from.induct)
  case (1 q dq tau n i out)
  show ?case
  proof (cases "i < n")
    case True
    then have "[i..<n] = i # [i + 1..<n]" by (simp add: upt_conv_Cons)
    with True 1 show ?thesis
      by (subst safetyChecks_from.simps) simp
  next
    case False
    with 1 show ?thesis by (subst safetyChecks_from.simps) simp
  qed
qed

lemma safetyChecks_starter_from_eq:
  "n \<le> 7 \<Longrightarrow> n \<le> length q \<Longrightarrow> n \<le> length dq \<Longrightarrow> n \<le> length tau \<Longrightarrow> i \<le> n \<Longrightarrow>
   safetyChecks_starter_from q dq tau n i out =
     Inr (out @ concat (map (checks_of_joint_starter q dq tau) [i..<n]))"
proof (induction q dq tau n i out rule: safetyChecks_starter_from.induct)
  case (1 q dq tau n i out)
  show ?case
  proof (cases "i < n")
    case True
    then have "[i..<n] = i # [i + 1..<n]" by (simp add: upt_conv_Cons)
    with True 1 show ?thesis
      by (subst safetyChecks_starter_from.simps) simp
  next
    case False
    with 1 show ?thesis by (subst safetyChecks_starter_from.simps) simp
  qed
qed

lemma safetyChecks_eq:
  "n \<le> 7 \<Longrightarrow> n \<le> length q \<Longrightarrow> n \<le> length dq \<Longrightarrow> n \<le> length tau \<Longrightarrow>
   safetyChecks q dq tau n = Inr (concat (map (checks_of_joint q dq tau) [0..<n]))"
  by (simp add: safetyChecks_def safetyChecks_from_eq)

lemma safetyChecks_starter_eq:
  "n \<le> 7 \<Longrightarrow> n \<le> length q \<Longrightarrow> n \<le> length dq \<Longrightarrow> n \<le> length tau \<Longrightarrow>
   safetyChecks_starter q dq tau n =
     Inr (concat (map (checks_of_joint_starter q dq tau) [0..<n]))"
  by (simp add: safetyChecks_starter_def safetyChecks_starter_from_eq)

lemma checks_starter_fst:
  "checks_of_joint_starter q dq tau = (\<lambda>i. map fst (checks_of_joint q dq tau i))"
  by (rule ext) (simp add: checks_of_joint_starter_def checks_of_joint_def)

lemma set_checks_of_joint:
  "(v, j) \<in> set (checks_of_joint q dq tau i) \<longleftrightarrow> j = i + 1 \<and> violates q dq tau v i"
  by (cases v) (auto simp: checks_of_joint_def)

lemma distinct_checks_of_joint: "distinct (checks_of_joint q dq tau i)"
  by (simp add: checks_of_joint_def)

lemma set_all_checks:
  "(v, j) \<in> set (concat (map (checks_of_joint q dq tau) [0..<n])) \<longleftrightarrow>
     (\<exists>i<n. j = i + 1 \<and> violates q dq tau v i)"
  by (auto simp: set_checks_of_joint)

lemma distinct_all_checks:
  "distinct (concat (map (checks_of_joint q dq tau) [0..<n]))"
proof (induction n)
  case 0
  then show ?case by simp
next
  case (Suc n)
  have "set (concat (map (checks_of_joint q dq tau) [0..<n])) \<inter> set (checks_of_joint q dq tau n) = {}"
    by (auto simp: set_checks_of_joint)
  with Suc show ?case by (simp add: distinct_checks_of_joint)
qed

lemma concat_single:
  assumes "j < n" and "f j = ys" and "\<forall>i<n. i \<noteq> j \<longrightarrow> f i = []"
  shows "concat (map f [0..<n]) = ys"
proof -
  have split: "[0..<n] = [0..<j] @ j # [Suc j..<n]"
    using assms(1) by (metis le_add1 less_imp_add_positive upt_add_eq_append upt_conv_Cons plus_nat.add_0 less_imp_le_nat le_add_diff_inverse)
  have e1: "concat (map f [0..<j]) = []" using assms by auto
  have e2: "concat (map f [Suc j..<n]) = []" using assms by auto
  have "concat (map f [0..<n]) = concat (map f [0..<j]) @ f j @ concat (map f [Suc j..<n])"
    by (simp add: split)
  also have "\<dots> = ys" by (simp only: e1 e2 assms(2) append_Nil append_Nil2)
  finally show ?thesis .
qed

lemma max_above_min: "j < 7 \<Longrightarrow> joint_position_min ! j < joint_position_max ! j + 0.01"
proof -
  assume "j < 7"
  then consider "j = 0" | "j = 1" | "j = 2" | "j = 3" | "j = 4" | "j = 5" | "j = 6" by linarith
  then show ?thesis
    by cases (simp_all add: joint_position_min_def joint_position_max_def)
qed

section \<open>Lemmas on one iteration\<close>

lemma same_consts_refl: "same_consts s s"
  by (simp add: same_consts_def)

lemma wait_mode_consts: "wait_mode stod e s = Inr s' \<Longrightarrow> same_consts s s'"
  by (auto simp: wait_mode_def Let_def same_consts_def slots_def split: option.splits if_splits)

lemma joint_controller_consts: "same_consts s (joint_controller e s)"
  by (simp add: joint_controller_def Let_def same_consts_def slots_def)

lemma posori_controller_consts: "posori_controller t e s = Inr s' \<Longrightarrow> same_consts s s'"
  by (auto simp: posori_controller_def Let_def same_consts_def slots_def split: if_splits)

lemma joint_controller_shot_consts: "same_consts s (joint_controller_shot t e s)"
  by (simp add: joint_controller_shot_def Let_def same_consts_def slots_def)

lemma execute_mode_consts: "execute_mode t e s = Inr s' \<Longrightarrow> same_consts s s'"
  using joint_controller_consts [of s e] posori_controller_consts [of t e s]
    joint_controller_shot_consts [of s t e]
  by (auto simp: execute_mode_def same_consts_def slots_def split: state_t.splits sum.splits)

lemma tick_consts: "tick stod e s = Inr s' \<Longrightarrow> same_consts s s'"
  using wait_mode_consts [of stod e s] execute_mode_consts [of _ e s]
  by (auto simp: tick_def Let_def same_consts_def slots_def split: mode_t.splits sum.splits)

lemma joint_controller_redis: "joint_controller (e\<lparr>redis_get := f\<rparr>) s = joint_controller e s"
  by (simp add: joint_controller_def)

lemma posori_controller_redis:
  "posori_controller t (e\<lparr>redis_get := f\<rparr>) s = posori_controller t e s"
  by (simp add: posori_controller_def Let_def cong: sum.case_cong)

lemma joint_controller_shot_redis:
  "joint_controller_shot t (e\<lparr>redis_get := f\<rparr>) s = joint_controller_shot t e s"
  by (simp add: joint_controller_shot_def)

lemma execute_mode_redis: "execute_mode t (e\<lparr>redis_get := f\<rparr>) s = execute_mode t e s"
  by (cases "state s")
    (simp_all add: execute_mode_def joint_controller_redis posori_controller_redis
      joint_controller_shot_redis cong: sum.case_cong)

lemma tick_execute_redis:
  "mode s = EXECUTE_MODE \<Longrightarrow> tick stod' (e\<lparr>redis_get := f\<rparr>) s = tick stod e s"
  by (simp add: tick_def execute_mode_redis)

lemma reached_home: "cycle_consts s \<Longrightarrow> reached e s = home_reached e"
  by (simp add: cycle_consts_def slots_def reached_def home_reached_def
      calculatePointInTrajectory_def inRange_def)

lemma execute_mode_joint:
  assumes "state s = JOINT_CONTROLLER" "sized e s"
  shows "\<exists>s'. execute_mode t e s = Inr s' \<and> mode s' = mode s \<and>
           state s' = (if joint_goal e then POSORI_CONTROLLER else JOINT_CONTROLLER) \<and>
           controller_counter s' = (if joint_goal e then 1 else controller_counter s + 1)"
  using assms
  by (simp add: execute_mode_def joint_controller_def Let_def sized_def joint_goal_def
      safetyChecks_eq)

lemma execute_mode_shot:
  assumes "state s = JOINT_CONTROLLER_SHOT" "sized e s"
  shows "\<exists>s'. execute_mode t e s = Inr s' \<and> mode s' = mode s \<and>
           state s' = (if t > t_4 s + total_time s then POSORI_CONTROLLER
                       else JOINT_CONTROLLER_SHOT) \<and>
           controller_counter s' = controller_counter s + 1"
  using assms
  by (simp add: execute_mode_def joint_controller_shot_def Let_def sized_def safetyChecks_eq)

lemma execute_mode_posori:
  assumes "state s = POSORI_CONTROLLER" "sized e s"
  shows "\<exists>s'. execute_mode t e s = Inr s' \<and>
           mode s' = (if reached e s \<and> t > t_4 s then WAIT_MODE else mode s) \<and>
           state s' = (if t > t_3 s \<and> t < t_3 s + total_time s then JOINT_CONTROLLER_SHOT
                       else if reached e s \<and> t > t_4 s then JOINT_CONTROLLER
                       else POSORI_CONTROLLER) \<and>
           controller_counter s' = controller_counter s + 1"
proof -
  have "dof s - Suc 0 < length (sensed_q e)"
    using assms(2) by (auto simp: sized_def)
  then show ?thesis
    using assms
    by (simp add: execute_mode_def posori_controller_def Let_def sized_def reached_def
        safetyChecks_eq)
qed

lemma run_loop_snoc:
  "run_loop stod (es @ [e]) s =
     (case run_loop stod es s of Inl err \<Rightarrow> Inl err | Inr s' \<Rightarrow> tick stod e s')"
  by (induction es arbitrary: s) (auto split: sum.splits)

lemma run_loop_take_Suc:
  "k < length ins \<Longrightarrow> run_loop stod (take (Suc k) ins) s =
     (case run_loop stod (take k ins) s of Inl err \<Rightarrow> Inl err
      | Inr s' \<Rightarrow> tick stod (ins ! k) s')"
  by (simp add: take_Suc_conv_app_nth run_loop_snoc)

lemma tick_execute:
  "mode s = EXECUTE_MODE \<Longrightarrow> execute_mode (real (controller_counter s) * 0.001) e s = Inr s1 \<Longrightarrow>
   \<exists>s'. tick stod e s = Inr s' \<and> mode s' = mode s1 \<and> state s' = state s1 \<and>
     controller_counter s' = controller_counter s1"
  by (simp add: tick_def)

lemma cycle_step:
  assumes cc: "cycle_consts s" and sz: "sized e s"
    and inv: "cycle_inv n1 n4 k s" and k: "k \<le> n4" and n14: "n1 + 14302 \<le> n4"
    and j: "k < n1 \<Longrightarrow> \<not> joint_goal e" "k = n1 \<Longrightarrow> joint_goal e"
    and r: "n1 + 14302 \<le> k \<Longrightarrow> k < n4 \<Longrightarrow> \<not> home_reached e" "k = n4 \<Longrightarrow> home_reached e"
  shows "\<exists>s'. tick stod e s = Inr s' \<and> cycle_inv n1 n4 (Suc k) s'"
proof -
  let ?t = "real (controller_counter s) * 0.001"
  have m: "mode s = EXECUTE_MODE"
    using inv k by (auto simp: cycle_inv_def phase_at_def split: if_splits)
  have t3: "t_3 s = 12" and t4: "t_4 s = 13" and tt: "total_time s = 1.3"
    using cc by (simp_all add: cycle_consts_def slots_def)
  consider (approach) "k \<le> n1" | (track) "n1 < k" "k \<le> n1 + 12001"
    | (shot) "n1 + 12001 < k" "k \<le> n1 + 14301" | (return) "n1 + 14301 < k"
    by linarith
  then have "\<exists>s1. execute_mode ?t e s = Inr s1 \<and> cycle_inv n1 n4 (Suc k) s1"
  proof cases
    case approach
    then have st: "state s = JOINT_CONTROLLER"
      using inv by (simp add: cycle_inv_def phase_at_def)
    have g: "joint_goal e \<longleftrightarrow> k = n1" using j approach by (cases "k = n1") auto
    from execute_mode_joint [OF st sz, of ?t] obtain s1 where
      ex: "execute_mode ?t e s = Inr s1" and "mode s1 = mode s"
      and "state s1 = (if joint_goal e then POSORI_CONTROLLER else JOINT_CONTROLLER)"
      and "controller_counter s1 = (if joint_goal e then 1 else controller_counter s + 1)"
      by blast
    then have "mode s1 = EXECUTE_MODE"
      "state s1 = (if k = n1 then POSORI_CONTROLLER else JOINT_CONTROLLER)"
      "k = n1 \<longrightarrow> controller_counter s1 = 1"
      using m g by simp_all
    then have "cycle_inv n1 n4 (Suc k) s1"
      using approach n14 by (auto simp: cycle_inv_def phase_at_def)
    with ex show ?thesis by blast
  next
    case track
    then have st: "state s = POSORI_CONTROLLER" and c: "controller_counter s = k - n1"
      using inv k n14 by (auto simp: cycle_inv_def phase_at_def)
    have nw: "\<not> ?t > t_4 s" using c track t4 by simp
    have sh: "(?t > t_3 s \<and> ?t < t_3 s + total_time s) = (k = n1 + 12001)"
      using c track t3 tt by auto
    from execute_mode_posori [OF st sz, of ?t] obtain s1 where
      ex: "execute_mode ?t e s = Inr s1"
      and "mode s1 = (if reached e s \<and> ?t > t_4 s then WAIT_MODE else mode s)"
      and "state s1 = (if ?t > t_3 s \<and> ?t < t_3 s + total_time s then JOINT_CONTROLLER_SHOT
                       else if reached e s \<and> ?t > t_4 s then JOINT_CONTROLLER
                       else POSORI_CONTROLLER)"
      and "controller_counter s1 = controller_counter s + 1"
      by blast
    then have "mode s1 = EXECUTE_MODE"
      "state s1 = (if k = n1 + 12001 then JOINT_CONTROLLER_SHOT else POSORI_CONTROLLER)"
      "controller_counter s1 = Suc k - n1"
      using m nw sh c track by simp_all
    then have "cycle_inv n1 n4 (Suc k) s1"
      using track n14 by (auto simp: cycle_inv_def phase_at_def)
    with ex show ?thesis by blast
  next
    case shot
    then have st: "state s = JOINT_CONTROLLER_SHOT" and c: "controller_counter s = k - n1"
      using inv k n14 by (auto simp: cycle_inv_def phase_at_def)
    have dn: "(?t > t_4 s + total_time s) = (k = n1 + 14301)"
      using c shot t4 tt by auto
    from execute_mode_shot [OF st sz, of ?t] obtain s1 where
      ex: "execute_mode ?t e s = Inr s1" and "mode s1 = mode s"
      and "state s1 = (if ?t > t_4 s + total_time s then POSORI_CONTROLLER
                       else JOINT_CONTROLLER_SHOT)"
      and "controller_counter s1 = controller_counter s + 1"
      by blast
    then have "mode s1 = EXECUTE_MODE"
      "state s1 = (if k = n1 + 14301 then POSORI_CONTROLLER else JOINT_CONTROLLER_SHOT)"
      "controller_counter s1 = Suc k - n1"
      using m dn c shot by simp_all
    then have "cycle_inv n1 n4 (Suc k) s1"
      using shot n14 by (auto simp: cycle_inv_def phase_at_def)
    with ex show ?thesis by blast
  next
    case return
    then have st: "state s = POSORI_CONTROLLER" and c: "controller_counter s = k - n1"
      using inv k n14 by (auto simp: cycle_inv_def phase_at_def)
    have w: "?t > t_4 s" using c return t4 by simp
    have ns: "\<not> ?t < t_3 s + total_time s"
      using c return t3 tt by simp
    have g: "reached e s \<longleftrightarrow> k = n4"
      using r return k reached_home [OF cc, of e] by (cases "k = n4") auto
    from execute_mode_posori [OF st sz, of ?t] obtain s1 where
      ex: "execute_mode ?t e s = Inr s1"
      and "mode s1 = (if reached e s \<and> ?t > t_4 s then WAIT_MODE else mode s)"
      and "state s1 = (if ?t > t_3 s \<and> ?t < t_3 s + total_time s then JOINT_CONTROLLER_SHOT
                       else if reached e s \<and> ?t > t_4 s then JOINT_CONTROLLER
                       else POSORI_CONTROLLER)"
      and "controller_counter s1 = controller_counter s + 1"
      by blast
    then have "mode s1 = (if k = n4 then WAIT_MODE else EXECUTE_MODE)"
      "state s1 = (if k = n4 then JOINT_CONTROLLER else POSORI_CONTROLLER)"
      "controller_counter s1 = Suc k - n1"
      using m w ns g c return by simp_all
    then have "cycle_inv n1 n4 (Suc k) s1"
      using return n14 k by (auto simp: cycle_inv_def phase_at_def)
    with ex show ?thesis by blast
  qed
  then obtain s1 where s1: "execute_mode ?t e s = Inr s1" "cycle_inv n1 n4 (Suc k) s1"
    by blast
  from tick_execute [OF m s1(1), of stod] s1(2) show ?thesis
    by (auto simp: cycle_inv_def)
qed


lemma same_consts_trans: "same_consts s s1 \<Longrightarrow> same_consts s1 s2 \<Longrightarrow> same_consts s s2"
  by (simp add: same_consts_def)

lemma cycle_run:
  assumes start: "mode s = EXECUTE_MODE" "state s = JOINT_CONTROLLER" "cycle_consts s"
    and sz: "\<forall>e\<in>set ins. sized e s"
    and n1: "joint_goal (ins ! n1)" "\<forall>k<n1. \<not> joint_goal (ins ! k)"
    and n4: "n1 + 14302 \<le> n4" "n4 < length ins" "home_reached (ins ! n4)"
      "\<forall>k. n1 + 14302 \<le> k \<and> k < n4 \<longrightarrow> \<not> home_reached (ins ! k)"
  shows "k \<le> n4 + 1 \<Longrightarrow>
         \<exists>s'. run_loop stod (take k ins) s = Inr s' \<and> cycle_inv n1 n4 k s' \<and> same_consts s s'"
proof (induction k)
  case 0
  then show ?case
    using start by (simp add: cycle_inv_def phase_at_def same_consts_refl)
next
  case (Suc k)
  then have k: "k \<le> n4" "k < length ins" using n4 by simp_all
  from Suc obtain s1 where s1: "run_loop stod (take k ins) s = Inr s1"
    "cycle_inv n1 n4 k s1" "same_consts s s1" by auto
  have cc: "cycle_consts s1"
    using start(3) s1(3) by (simp add: cycle_consts_def same_consts_def)
  have "sized (ins ! k) s" using sz k(2) by simp
  then have sz1: "sized (ins ! k) s1"
    using s1(3) by (simp add: sized_def same_consts_def)
  have "\<exists>s'. tick stod (ins ! k) s1 = Inr s' \<and> cycle_inv n1 n4 (Suc k) s'"
    using n1 n4 by (intro cycle_step [OF cc sz1 s1(2) k(1)]) auto
  then obtain s2 where s2: "tick stod (ins ! k) s1 = Inr s2" "cycle_inv n1 n4 (Suc k) s2"
    by blast
  have "same_consts s s2"
    using s1(3) tick_consts [OF s2(1)] by (rule same_consts_trans)
  then show ?case
    using s1(1) s2 by (simp add: run_loop_take_Suc [OF k(2)])
qed

lemma reached_home_starter:
  "cycle_consts_starter s \<Longrightarrow> reached_starter e s = home_reached_starter e"
  by (simp add: cycle_consts_starter_def slots_def reached_starter_def home_reached_starter_def
      calculatePointInTrajectory_starter_def inRange_def)

lemma execute_mode_starter_consts:
  "execute_mode_starter t e s = Inr s' \<Longrightarrow> same_consts s s'"
  by (cases "state s")
    (auto simp: execute_mode_starter_def joint_controller_starter_def
      posori_controller_starter_def joint_controller_shot_starter_def Let_def
      same_consts_def slots_def split: sum.splits if_splits)

lemma tick_starter_consts: "tick_starter e s = Inr s' \<Longrightarrow> same_consts s s'"
  using execute_mode_starter_consts [of _ e s s']
  by (cases "mode s") (auto simp: tick_starter_def wait_mode_starter_def Let_def same_consts_def slots_def)

lemma execute_mode_starter_joint:
  assumes "state s = JOINT_CONTROLLER" "sized e s"
  shows "\<exists>s'. execute_mode_starter t e s = Inr s' \<and> mode s' = mode s \<and>
           state s' = (if joint_goal_starter e then POSORI_CONTROLLER else JOINT_CONTROLLER) \<and>
           controller_counter s' =
             (if joint_goal_starter e then 1 else controller_counter s + 1)"
  using assms
  by (simp add: execute_mode_starter_def joint_controller_starter_def Let_def sized_def
      joint_goal_starter_def safetyChecks_starter_eq)

lemma execute_mode_starter_shot:
  assumes "state s = JOINT_CONTROLLER_SHOT" "sized e s"
  shows "\<exists>s'. execute_mode_starter t e s = Inr s' \<and> mode s' = mode s \<and>
           state s' = (if t > t_3 s + total_time s then POSORI_CONTROLLER
                       else JOINT_CONTROLLER_SHOT) \<and>
           controller_counter s' = controller_counter s + 1"
  using assms
  by (simp add: execute_mode_starter_def joint_controller_shot_starter_def Let_def sized_def
      safetyChecks_starter_eq)

lemma execute_mode_starter_posori:
  assumes "state s = POSORI_CONTROLLER" "sized e s"
  shows "\<exists>s'. execute_mode_starter t e s = Inr s' \<and>
           mode s' = (if reached_starter e s \<and> t > t_4 s then WAIT_MODE else mode s) \<and>
           state s' = (if t > t_3 s \<and> t < t_3 s + total_time s then JOINT_CONTROLLER_SHOT
                       else if reached_starter e s \<and> t > t_4 s then JOINT_CONTROLLER
                       else POSORI_CONTROLLER) \<and>
           controller_counter s' =
             (if t > t_3 s \<and> t < t_3 s + total_time s then 1 else controller_counter s + 1)"
  using assms
  by (simp add: execute_mode_starter_def posori_controller_starter_def Let_def sized_def
      reached_starter_def safetyChecks_starter_eq)

lemma run_loop_starter_snoc:
  "run_loop_starter (es @ [e]) s =
     (case run_loop_starter es s of Inl err \<Rightarrow> Inl err | Inr s' \<Rightarrow> tick_starter e s')"
  by (induction es arbitrary: s) (auto split: sum.splits)

lemma run_loop_starter_take_Suc:
  "k < length ins \<Longrightarrow> run_loop_starter (take (Suc k) ins) s =
     (case run_loop_starter (take k ins) s of Inl err \<Rightarrow> Inl err
      | Inr s' \<Rightarrow> tick_starter (ins ! k) s')"
  by (simp add: take_Suc_conv_app_nth run_loop_starter_snoc)

lemma tick_starter_execute:
  "mode s = EXECUTE_MODE \<Longrightarrow>
   tick_starter e s = execute_mode_starter (real (controller_counter s) * 0.001) e s"
  by (simp add: tick_starter_def)

lemma after_floor: "0 \<le> x \<Longrightarrow> (x < real c) = (nat \<lfloor>x\<rfloor> < c)"
  by linarith


lemma cycle_step_starter:
  assumes cc: "cycle_consts_starter s" and sz: "sized e s" and K: "K = shot_ticks s"
    and inv: "cycle_inv_starter n1 K n4 k s" and k: "k \<le> n4" and n14: "n1 + 15003 + K \<le> n4"
    and j: "k < n1 \<Longrightarrow> \<not> joint_goal_starter e" "k = n1 \<Longrightarrow> joint_goal_starter e"
    and r: "n1 + 15003 + K \<le> k \<Longrightarrow> k < n4 \<Longrightarrow> \<not> (home_reached_starter e \<and> n1 + 35001 < k)"
      "k = n4 \<Longrightarrow> home_reached_starter e \<and> n1 + 35001 < k"
  shows "\<exists>s'. tick_starter e s = Inr s' \<and> cycle_inv_starter n1 K n4 (Suc k) s'"
proof -
  let ?t = "real (controller_counter s) * 0.001"
  have m: "mode s = EXECUTE_MODE"
    using inv k by (auto simp: cycle_inv_starter_def phase_at_starter_def split: if_splits)
  have t3: "t_3 s = 15" and t4: "t_4 s = 20" and tt: "total_time s > 0.001"
    using cc by (simp_all add: cycle_consts_starter_def slots_def)
  have fl: "(1000 * (15 + total_time s) < real c) = (K < c)" for c
    unfolding K shot_ticks_def using tt by (intro after_floor) simp
  consider (approach) "k \<le> n1" | (track) "n1 < k" "k \<le> n1 + 15001"
    | (shot) "n1 + 15001 < k" "k \<le> n1 + 15002 + K" | (return) "n1 + 15002 + K < k"
    by linarith
  then have "\<exists>s1. execute_mode_starter ?t e s = Inr s1 \<and> cycle_inv_starter n1 K n4 (Suc k) s1"
  proof cases
    case approach
    then have st: "state s = JOINT_CONTROLLER"
      using inv by (simp add: cycle_inv_starter_def phase_at_starter_def)
    have g: "joint_goal_starter e \<longleftrightarrow> k = n1" using j approach by (cases "k = n1") auto
    from execute_mode_starter_joint [OF st sz, of ?t] obtain s1 where
      ex: "execute_mode_starter ?t e s = Inr s1" and "mode s1 = mode s"
      and "state s1 = (if joint_goal_starter e then POSORI_CONTROLLER else JOINT_CONTROLLER)"
      and "controller_counter s1 =
             (if joint_goal_starter e then 1 else controller_counter s + 1)"
      by blast
    then have "mode s1 = EXECUTE_MODE"
      "state s1 = (if k = n1 then POSORI_CONTROLLER else JOINT_CONTROLLER)"
      "k = n1 \<longrightarrow> controller_counter s1 = 1"
      using m g by simp_all
    then have "cycle_inv_starter n1 K n4 (Suc k) s1"
      using approach n14 by (auto simp: cycle_inv_starter_def phase_at_starter_def)
    with ex show ?thesis by blast
  next
    case track
    then have st: "state s = POSORI_CONTROLLER" and c: "controller_counter s = k - n1"
      using inv k n14 by (auto simp: cycle_inv_starter_def phase_at_starter_def)
    have nw: "\<not> ?t > t_4 s" using c track t4 by simp
    have sh: "(?t > t_3 s \<and> ?t < t_3 s + total_time s) = (k = n1 + 15001)"
      using c track t3 tt by auto
    from execute_mode_starter_posori [OF st sz, of ?t] obtain s1 where
      ex: "execute_mode_starter ?t e s = Inr s1"
      and "mode s1 = (if reached_starter e s \<and> ?t > t_4 s then WAIT_MODE else mode s)"
      and "state s1 = (if ?t > t_3 s \<and> ?t < t_3 s + total_time s then JOINT_CONTROLLER_SHOT
                       else if reached_starter e s \<and> ?t > t_4 s then JOINT_CONTROLLER
                       else POSORI_CONTROLLER)"
      and "controller_counter s1 =
             (if ?t > t_3 s \<and> ?t < t_3 s + total_time s then 1 else controller_counter s + 1)"
      by blast
    then have "mode s1 = EXECUTE_MODE"
      "state s1 = (if k = n1 + 15001 then JOINT_CONTROLLER_SHOT else POSORI_CONTROLLER)"
      "controller_counter s1 = (if k = n1 + 15001 then 1 else Suc k - n1)"
      using m nw sh c track by (simp_all add: Suc_diff_le)
    then have "cycle_inv_starter n1 K n4 (Suc k) s1"
      using track n14 by (auto simp: cycle_inv_starter_def phase_at_starter_def)
    with ex show ?thesis by blast
  next
    case shot
    then have st: "state s = JOINT_CONTROLLER_SHOT"
      and c: "controller_counter s = k - (n1 + 15001)"
      using inv k n14 by (auto simp: cycle_inv_starter_def phase_at_starter_def)
    have "(?t > t_3 s + total_time s) = (1000 * (15 + total_time s) < real (controller_counter s))"
      using t3 by auto
    also have "\<dots> = (k = n1 + 15002 + K)"
      unfolding fl using c shot by auto
    finally have dn: "(?t > t_3 s + total_time s) = (k = n1 + 15002 + K)" .
    from execute_mode_starter_shot [OF st sz, of ?t] obtain s1 where
      ex: "execute_mode_starter ?t e s = Inr s1" and "mode s1 = mode s"
      and "state s1 = (if ?t > t_3 s + total_time s then POSORI_CONTROLLER
                       else JOINT_CONTROLLER_SHOT)"
      and "controller_counter s1 = controller_counter s + 1"
      by blast
    then have "mode s1 = EXECUTE_MODE"
      "state s1 = (if k = n1 + 15002 + K then POSORI_CONTROLLER else JOINT_CONTROLLER_SHOT)"
      "controller_counter s1 = Suc k - (n1 + 15001)"
      using m dn c shot by (simp_all add: Suc_diff_le)
    then have "cycle_inv_starter n1 K n4 (Suc k) s1"
      using shot n14 by (auto simp: cycle_inv_starter_def phase_at_starter_def)
    with ex show ?thesis by blast
  next
    case return
    then have st: "state s = POSORI_CONTROLLER"
      and c: "controller_counter s = k - (n1 + 15001)"
      using inv k n14 by (auto simp: cycle_inv_starter_def phase_at_starter_def)
    have w: "(?t > t_4 s) = (n1 + 35001 < k)" using c return t4 by auto
    have "1000 * (15 + total_time s) < real (controller_counter s)"
      unfolding fl using c return by simp
    then have ns: "\<not> ?t < t_3 s + total_time s"
      using t3 by simp
    have g: "(reached_starter e s \<and> n1 + 35001 < k) \<longleftrightarrow> k = n4"
      using r return k reached_home_starter [OF cc, of e] by (cases "k = n4") auto
    from execute_mode_starter_posori [OF st sz, of ?t] obtain s1 where
      ex: "execute_mode_starter ?t e s = Inr s1"
      and "mode s1 = (if reached_starter e s \<and> ?t > t_4 s then WAIT_MODE else mode s)"
      and "state s1 = (if ?t > t_3 s \<and> ?t < t_3 s + total_time s then JOINT_CONTROLLER_SHOT
                       else if reached_starter e s \<and> ?t > t_4 s then JOINT_CONTROLLER
                       else POSORI_CONTROLLER)"
      and "controller_counter s1 =
             (if ?t > t_3 s \<and> ?t < t_3 s + total_time s then 1 else controller_counter s + 1)"
      by blast
    then have "mode s1 = (if k = n4 then WAIT_MODE else EXECUTE_MODE)"
      "state s1 = (if k = n4 then JOINT_CONTROLLER else POSORI_CONTROLLER)"
      "controller_counter s1 = Suc k - (n1 + 15001)"
      using m ns g c return unfolding w by (simp_all add: Suc_diff_le)
    then have "cycle_inv_starter n1 K n4 (Suc k) s1"
      using return n14 k by (auto simp: cycle_inv_starter_def phase_at_starter_def)
    with ex show ?thesis by blast
  qed
  then show ?thesis
    by (simp add: tick_starter_execute [OF m])
qed

lemma cycle_run_starter:
  assumes start: "mode s = EXECUTE_MODE" "state s = JOINT_CONTROLLER" "cycle_consts_starter s"
    and sz: "\<forall>e\<in>set ins. sized e s" and K: "K = shot_ticks s"
    and n1: "joint_goal_starter (ins ! n1)" "\<forall>k<n1. \<not> joint_goal_starter (ins ! k)"
    and n4: "n1 + 15003 + K \<le> n4" "n1 + 35001 < n4" "n4 < length ins"
      "home_reached_starter (ins ! n4)"
      "\<forall>k. n1 + 15003 + K \<le> k \<and> n1 + 35001 < k \<and> k < n4 \<longrightarrow> \<not> home_reached_starter (ins ! k)"
  shows "k \<le> n4 + 1 \<Longrightarrow>
         \<exists>s'. run_loop_starter (take k ins) s = Inr s' \<and> cycle_inv_starter n1 K n4 k s' \<and>
           same_consts s s'"
proof (induction k)
  case 0
  then show ?case
    using start by (simp add: cycle_inv_starter_def phase_at_starter_def same_consts_refl)
next
  case (Suc k)
  then have k: "k \<le> n4" "k < length ins" using n4 by simp_all
  from Suc obtain s1 where s1: "run_loop_starter (take k ins) s = Inr s1"
    "cycle_inv_starter n1 K n4 k s1" "same_consts s s1" by auto
  have cc: "cycle_consts_starter s1"
    using start(3) s1(3) by (simp add: cycle_consts_starter_def same_consts_def)
  have K1: "K = shot_ticks s1"
    using K s1(3) by (simp add: shot_ticks_def same_consts_def)
  have "sized (ins ! k) s" using sz k(2) by simp
  then have sz1: "sized (ins ! k) s1"
    using s1(3) by (simp add: sized_def same_consts_def)
  have "\<exists>s'. tick_starter (ins ! k) s1 = Inr s' \<and> cycle_inv_starter n1 K n4 (Suc k) s'"
    using n1 n4 by (intro cycle_step_starter [OF cc sz1 K1 s1(2) k(1)]) auto
  then obtain s2 where s2: "tick_starter (ins ! k) s1 = Inr s2"
    "cycle_inv_starter n1 K n4 (Suc k) s2"
    by blast
  have "same_consts s s2"
    using s1(3) tick_starter_consts [OF s2(1)] by (rule same_consts_trans)
  then show ?case
    using s1(1) s2 by (simp add: run_loop_starter_take_Suc [OF k(2)])
qed

section \<open>Lemmas on the wait branch, on frames and on stalled phases\<close>

lemma wait_mode_other:
  "redis_get e MODE_CHANGE_KEY \<noteq> ''execute'' \<Longrightarrow>
   \<exists>s'. wait_mode stod e s = Inr s' \<and> mode s' = mode s \<and>
     shot_parameters s' = shot_parameters s"
  by (simp add: wait_mode_def Let_def shot_parameters_def)

lemma wait_mode_execute_ok:
  "redis_get e MODE_CHANGE_KEY = ''execute'' \<Longrightarrow> shot_strings_parse stod e \<Longrightarrow>
   \<exists>s'. wait_mode stod e s = Inr s' \<and> mode s' = EXECUTE_MODE"
  by (auto simp: wait_mode_def Let_def shot_strings_parse_def)

lemma wait_mode_execute_throw:
  "redis_get e MODE_CHANGE_KEY = ''execute'' \<Longrightarrow> \<not> shot_strings_parse stod e \<Longrightarrow>
   \<exists>s'. wait_mode stod e s = Inl (Stod_exception, s') \<and> mode s' = EXECUTE_MODE"
  by (auto simp: wait_mode_def Let_def shot_strings_parse_def split: option.splits)

lemma tick_wait:
  "mode s = WAIT_MODE \<Longrightarrow>
   tick stod e s = (case wait_mode stod e s of Inl err \<Rightarrow> Inl err
     | Inr s1 \<Rightarrow> Inr (s1\<lparr>redis_writes := redis_writes s1 @
                   [Set_matrix JOINT_TORQUES_COMMANDED_KEY (command_torques s1)]\<rparr>))"
  by (simp add: tick_def)

lemma example_parses: "shot_strings_parse example_stod (example_in tok q x)"
  by (simp add: shot_strings_parse_def example_in_def example_stod_def shot_pos_fields_def
      SHOT_POS_KEY_def SHOT_ANGLE_KEY_def MODE_CHANGE_KEY_def)

lemma run_loop_consts: "run_loop stod ins s = Inr s' \<Longrightarrow> same_consts s s'"
proof (induction ins arbitrary: s)
  case Nil
  then show ?case by (simp add: same_consts_refl)
next
  case (Cons e es)
  then obtain s1 where "tick stod e s = Inr s1" "run_loop stod es s1 = Inr s'"
    by (auto split: sum.splits)
  then show ?case
    using Cons.IH tick_consts same_consts_trans by blast
qed

lemma example_cycle:
  fixes e s ins
  defines "e \<equiv> example_in ''execute'' q_init_desired xh"
    and "s \<equiv> (initial memory0)\<lparr>mode := EXECUTE_MODE\<rparr>"
  shows "k \<le> 14303 \<Longrightarrow>
    \<exists>s'. run_loop example_stod (replicate k e) s = Inr s' \<and>
       (mode s', state s') = phase_at 0 14302 k \<and> slots s' = (0, 4, 8, 12, 13)"
proof -
  assume k: "k \<le> 14303"
  define ins where "ins = replicate 14303 e"
  have s: "mode s = EXECUTE_MODE" "state s = JOINT_CONTROLLER" "cycle_consts s"
    by (simp_all add: s_def initial_def cycle_consts_def slots_def)
  have "sized e s"
    by (simp add: e_def s_def sized_def example_in_def initial_def memory0_def
        q_init_desired_def)
  then have sz: "\<forall>x\<in>set ins. sized x s"
    by (simp add: ins_def)
  have je: "joint_goal e"
    by (simp add: e_def joint_goal_def example_in_def vnorm_def vminus_def q_init_desired_def)
  have he: "home_reached e"
    by (simp add: e_def home_reached_def robotReachedGoal_def example_in_def vnorm_def
        vminus_def toX_def xh_def)
  have tk: "take k ins = replicate k e"
    using k by (simp add: ins_def min_def)
  have "\<exists>s'. run_loop example_stod (take k ins) s = Inr s' \<and> cycle_inv 0 14302 k s' \<and>
      same_consts s s'"
    using k je he by (intro cycle_run [OF s sz]) (simp_all add: ins_def)
  then show ?thesis
    unfolding tk using s(3) by (auto simp: cycle_inv_def same_consts_def cycle_consts_def)
qed

lemma execute_mode_to_wait:
  "execute_mode t e s = Inr s' \<Longrightarrow> mode s = EXECUTE_MODE \<Longrightarrow> mode s' = WAIT_MODE \<Longrightarrow>
   state s = POSORI_CONTROLLER \<and> reached e s \<and> t_4 s < t"
  by (cases "state s")
    (auto simp: execute_mode_def joint_controller_def posori_controller_def
      joint_controller_shot_def Let_def reached_def split: sum.splits if_splits)

lemma tick_to_wait:
  assumes "mode s = EXECUTE_MODE" "tick stod e s = Inr s'" "mode s' = WAIT_MODE"
  shows "state s = POSORI_CONTROLLER \<and> reached e s \<and>
         t_4 s < real (controller_counter s) * 0.001"
proof -
  let ?t = "real (controller_counter s) * 0.001"
  from assms obtain s1 where "execute_mode ?t e s = Inr s1" "mode s1 = WAIT_MODE"
    by (auto simp: tick_def split: sum.splits)
  from execute_mode_to_wait [OF this(1) assms(1) this(2)] show ?thesis .
qed

lemma execute_mode_cue:
  "execute_mode t e s = Inr s' \<Longrightarrow> cue_start_pos s' = cue_start_pos s"
  by (cases "state s")
    (auto simp: execute_mode_def joint_controller_def posori_controller_def
      joint_controller_shot_def Let_def split: sum.splits if_splits)

lemma tick_execute_cue:
  "mode s = EXECUTE_MODE \<Longrightarrow> tick stod e s = Inr s' \<Longrightarrow> cue_start_pos s' = cue_start_pos s"
  using execute_mode_cue [of _ e s] by (auto simp: tick_def split: sum.splits)

lemma reached_cong:
  "slots s' = slots s \<Longrightarrow> cue_start_pos s' = cue_start_pos s \<Longrightarrow> reached e s' = reached e s"
  by (simp add: reached_def calculatePointInTrajectory_def xcd_def slots_def)

lemma stall_approach:
  "mode s = EXECUTE_MODE \<Longrightarrow> state s = JOINT_CONTROLLER \<Longrightarrow>
   \<forall>x\<in>set ins. sized x s \<and> \<not> joint_goal x \<Longrightarrow>
   \<exists>s'. run_loop stod ins s = Inr s' \<and> mode s' = EXECUTE_MODE \<and> state s' = JOINT_CONTROLLER"
proof (induction ins arbitrary: s)
  case Nil
  then show ?case by simp
next
  case (Cons e es)
  let ?t = "real (controller_counter s) * 0.001"
  from Cons.prems have e: "sized e s" "\<not> joint_goal e" by simp_all
  from execute_mode_joint [OF Cons.prems(2) e(1), of ?t] e(2) Cons.prems(1)
  obtain s1 where "execute_mode ?t e s = Inr s1" "mode s1 = EXECUTE_MODE"
    "state s1 = JOINT_CONTROLLER" by auto
  with tick_execute [OF Cons.prems(1), of e s1 stod] obtain s2 where
    s2: "tick stod e s = Inr s2" "mode s2 = EXECUTE_MODE" "state s2 = JOINT_CONTROLLER"
    by auto
  have "dof s2 = dof s" using tick_consts [OF s2(1)] by (simp add: same_consts_def)
  then have "\<forall>x\<in>set es. sized x s2 \<and> \<not> joint_goal x"
    using Cons.prems(3) by (simp add: sized_def)
  from Cons.IH [OF s2(2,3) this] s2(1) show ?case by simp
qed

lemma stall_return:
  "mode s = EXECUTE_MODE \<Longrightarrow> state s = POSORI_CONTROLLER \<Longrightarrow>
   t_3 s + total_time s \<le> real (controller_counter s) * 0.001 \<Longrightarrow>
   \<forall>x\<in>set ins. sized x s \<and> \<not> reached x s \<Longrightarrow>
   \<exists>s'. run_loop stod ins s = Inr s' \<and> mode s' = EXECUTE_MODE \<and> state s' = POSORI_CONTROLLER"
proof (induction ins arbitrary: s)
  case Nil
  then show ?case by simp
next
  case (Cons e es)
  let ?t = "real (controller_counter s) * 0.001"
  from Cons.prems have e: "sized e s" "\<not> reached e s" by simp_all
  from execute_mode_posori [OF Cons.prems(2) e(1), of ?t] e(2) Cons.prems(1,3)
  obtain s1 where "execute_mode ?t e s = Inr s1" "mode s1 = EXECUTE_MODE"
    "state s1 = POSORI_CONTROLLER" "controller_counter s1 = controller_counter s + 1"
    by auto
  with tick_execute [OF Cons.prems(1), of e s1 stod] obtain s2 where
    s2: "tick stod e s = Inr s2" "mode s2 = EXECUTE_MODE" "state s2 = POSORI_CONTROLLER"
      "controller_counter s2 = controller_counter s + 1"
    by auto
  have c: "same_consts s s2" by (rule tick_consts [OF s2(1)])
  have cue: "cue_start_pos s2 = cue_start_pos s"
    by (rule tick_execute_cue [OF Cons.prems(1) s2(1)])
  have "\<forall>x\<in>set es. sized x s2 \<and> \<not> reached x s2"
    using Cons.prems(4) c cue reached_cong [of s2 s] by (simp add: sized_def same_consts_def)
  moreover have "t_3 s2 + total_time s2 \<le> real (controller_counter s2) * 0.001"
    using Cons.prems(3) c s2(4) by (simp add: same_consts_def slots_def)
  ultimately show ?case
    using Cons.IH [OF s2(2,3)] s2(1) by simp
qed

lemma execute_mode_hit_velocity:
  "execute_mode t e s = Inr s' \<Longrightarrow> hit_velocity s' = hit_velocity s"
  by (cases "state s")
    (auto simp: execute_mode_def joint_controller_def posori_controller_def
      joint_controller_shot_def Let_def split: sum.splits if_splits)

lemma wait_mode_hit_velocity:
  "wait_mode stod e s = Inr s' \<Longrightarrow> hit_velocity s' = hit_velocity s"
  by (auto simp: wait_mode_def Let_def split: option.splits if_splits)

lemma tick_hit_velocity: "tick stod e s = Inr s' \<Longrightarrow> hit_velocity s' = hit_velocity s"
  using wait_mode_hit_velocity [of stod e s] execute_mode_hit_velocity [of _ e s]
  by (cases "mode s") (auto simp: tick_def Let_def split: sum.splits)

lemma run_loop_hit_velocity:
  "run_loop stod ins s = Inr s' \<Longrightarrow> hit_velocity s' = hit_velocity s"
proof (induction ins arbitrary: s)
  case Nil
  then show ?case by simp
next
  case (Cons e es)
  then obtain s1 where "tick stod e s = Inr s1" "run_loop stod es s1 = Inr s'"
    by (auto split: sum.splits)
  then show ?case
    using Cons.IH tick_hit_velocity by fastforce
qed

lemma wait_mode_derived:
  "wait_mode stod e s = Inr s' \<Longrightarrow> redis_get e MODE_CHANGE_KEY = ''execute'' \<Longrightarrow>
   swing_angle s' = 120 * pi / 180 \<and> main_a s' = swing_angle s' / 2 \<and>
   shot_angular_velocity s' = hit_velocity s / ee_length \<and>
   main_w s' = shot_angular_velocity s' / main_a s'"
  by (auto simp: wait_mode_def Let_def split: option.splits if_splits)

section \<open>Lemmas on the trajectory at the slot boundaries\<close>

lemma sqrt_sum_pos: "x \<noteq> 0 \<or> y \<noteq> 0 \<Longrightarrow> 0 < sqrt (x\<^sup>2 + y\<^sup>2)" for x y :: real
  by (simp add: sum_power2_gt_zero_iff)

lemma sqrt_scale: "x \<noteq> 0 \<Longrightarrow> \<bar>x\<bar> * sqrt (1 + (y / x)\<^sup>2) = sqrt (x\<^sup>2 + y\<^sup>2)" for x y :: real
proof -
  assume x: "x \<noteq> 0"
  have "\<bar>x\<bar> * sqrt (1 + (y / x)\<^sup>2) = sqrt (x\<^sup>2) * sqrt (1 + (y / x)\<^sup>2)" by simp
  also have "\<dots> = sqrt (x\<^sup>2 * (1 + (y / x)\<^sup>2))" by (simp add: real_sqrt_mult)
  also have "x\<^sup>2 * (1 + (y / x)\<^sup>2) = x\<^sup>2 + y\<^sup>2"
    using x by (simp add: field_simps power2_eq_square)
  finally show ?thesis .
qed

lemma sin_atan2: "x \<noteq> 0 \<or> y \<noteq> 0 \<Longrightarrow> sin (atan2 y x) = y / sqrt (x\<^sup>2 + y\<^sup>2)"
proof -
  assume nz: "x \<noteq> 0 \<or> y \<noteq> 0"
  let ?S = "sqrt (1 + (y / x)\<^sup>2)"
  consider (pos) "0 < x" | (neg) "x < 0" | (zero) "x = 0" "y \<noteq> 0" using nz by fastforce
  then show ?thesis
  proof cases
    case pos
    then have sc: "x * ?S = sqrt (x\<^sup>2 + y\<^sup>2)" using sqrt_scale [of x y] by simp
    have "sin (atan2 y x) = (y / x) / ?S"
      using pos by (simp add: atan2_def sin_arctan)
    also have "\<dots> = y / (x * ?S)" by simp
    finally show ?thesis unfolding sc .
  next
    case neg
    then have sc: "(- x) * ?S = sqrt (x\<^sup>2 + y\<^sup>2)" using sqrt_scale [of x y] by simp
    have "sin (atan2 y x) = - ((y / x) / ?S)"
      using neg by (simp add: atan2_def sin_arctan)
    also have "\<dots> = y / ((- x) * ?S)" by simp
    finally show ?thesis unfolding sc .
  next
    case zero
    then show ?thesis by (auto simp: atan2_def real_sqrt_abs sgn_if abs_if)
  qed
qed

lemma cos_atan2: "x \<noteq> 0 \<or> y \<noteq> 0 \<Longrightarrow> cos (atan2 y x) = x / sqrt (x\<^sup>2 + y\<^sup>2)"
proof -
  assume nz: "x \<noteq> 0 \<or> y \<noteq> 0"
  let ?S = "sqrt (1 + (y / x)\<^sup>2)"
  consider (pos) "0 < x" | (neg) "x < 0" | (zero) "x = 0" "y \<noteq> 0" using nz by fastforce
  then show ?thesis
  proof cases
    case pos
    then have sc: "x * ?S = sqrt (x\<^sup>2 + y\<^sup>2)" using sqrt_scale [of x y] by simp
    have "cos (atan2 y x) = 1 / ?S"
      using pos by (simp add: atan2_def cos_arctan)
    also have "\<dots> = x / (x * ?S)" using pos by simp
    finally show ?thesis unfolding sc .
  next
    case neg
    then have sc: "(- x) * ?S = sqrt (x\<^sup>2 + y\<^sup>2)" using sqrt_scale [of x y] by simp
    have "cos (atan2 y x) = - (1 / ?S)"
      using neg by (simp add: atan2_def cos_arctan)
    also have "\<dots> = x / ((- x) * ?S)" using neg by simp
    finally show ?thesis unfolding sc .
  next
    case zero
    then show ?thesis by (auto simp: atan2_def)
  qed
qed


lemma circle_atan2:
  fixes x y r :: real
  assumes "0 < r" "x\<^sup>2 + y\<^sup>2 = r\<^sup>2"
  shows "r * sin (atan2 y x) = y" "r * cos (atan2 y x) = x"
proof -
  have nz: "x \<noteq> 0 \<or> y \<noteq> 0" using assms by auto
  have "sqrt (x\<^sup>2 + y\<^sup>2) = r" using assms by simp
  then show "r * sin (atan2 y x) = y" "r * cos (atan2 y x) = x"
    using assms(1) by (simp_all add: sin_atan2 [OF nz] cos_atan2 [OF nz])
qed

lemma left_limit_of_piece:
  fixes f g :: "real \<Rightarrow> 'a::topological_space"
  assumes "a < b" and "\<And>t. a < t \<Longrightarrow> t < b \<Longrightarrow> f t = g t" and "(g \<longlongrightarrow> l) (at_left b)"
  shows "(f \<longlongrightarrow> l) (at_left b)"
proof -
  have "eventually (\<lambda>t. f t = g t) (at_left b)"
    using eventually_at_left_real [OF assms(1)]
    by (rule eventually_mono) (simp add: assms(2))
  then show ?thesis using assms(3) by (simp add: tendsto_cong)
qed

lemma lerp_tendsto:
  "d \<noteq> 0 \<Longrightarrow> ((\<lambda>t. add3 p (div3 (scale3 (sub3 q p) (t - a)) d)) \<longlongrightarrow>
      add3 p (div3 (scale3 (sub3 q p) (b - a)) d)) (at_left b)"
  by (cases p; cases q)
    (auto simp: add3_def div3_def scale3_def sub3_def intro!: tendsto_intros)

lemma lerp_end: "d \<noteq> 0 \<Longrightarrow> add3 p (div3 (scale3 (sub3 q p) d) d) = q"
  by (cases p; cases q) (simp add: add3_def div3_def scale3_def sub3_def)

lemma rot_tendsto:
  fixes f :: "real \<Rightarrow> real"
  assumes "(f \<longlongrightarrow> l) F"
  shows "((\<lambda>t. mat_mul3 (AngleAxisd_UnitZ (f t)) m) \<longlongrightarrow> mat_mul3 (AngleAxisd_UnitZ l) m) F"
proof -
  have c: "((\<lambda>t. cos (f t)) \<longlongrightarrow> cos l) F"
    using assms by (rule tendsto_cos)
  have s: "((\<lambda>t. sin (f t)) \<longlongrightarrow> sin l) F"
    using assms by (rule tendsto_sin)
  show ?thesis
    by (cases m)
      (auto simp: mat_mul3_def AngleAxisd_UnitZ_def dot3_def col3_def
        intro!: tendsto_intros c s)
qed

lemma board_r_pos: "0 < board_r"
  by (simp add: board_r_def)

lemma circle_point: "(r * cos a)\<^sup>2 + (r * sin a)\<^sup>2 = r\<^sup>2" for r a :: real
proof -
  have "(r * cos a)\<^sup>2 + (r * sin a)\<^sup>2 = r\<^sup>2 * ((cos a)\<^sup>2 + (sin a)\<^sup>2)"
    by (simp only: power_mult_distrib distrib_left)
  then show ?thesis by (simp only: sin_cos_squared_add2 mult_1_right)
qed

lemma arc_start: "atan2 (x3 xc - x_offset) (y3 xc - y_offset) = atan2 (board_r * sin (- pi / 4)) (board_r * cos (- pi / 4))"
  by (simp add: xc_def x3_def y3_def)

lemma xc_on_arc:
  "(board_r * sin (atan2 (x3 xc - x_offset) (y3 xc - y_offset)) + x_offset,
    board_r * cos (atan2 (x3 xc - x_offset) (y3 xc - y_offset)) + y_offset, z3 xc) = xc"
proof -
  have c: "(board_r * cos (- pi / 4))\<^sup>2 + (board_r * sin (- pi / 4))\<^sup>2 = board_r\<^sup>2"
    by (rule circle_point)
  note circle_atan2 [OF board_r_pos c]
  then show ?thesis
    unfolding arc_start by (simp add: xc_def z3_def)
qed

lemma point_at_t_1:
  assumes "t_0 g < t_1 g" "t_1 g < t_2 g"
  shows "calculatePointInTrajectory g (t_1 g) = xc"
  using assms xc_on_arc
  by (simp add: calculatePointInTrajectory_def inRange_def Let_def)

lemma point_at_t_2:
  assumes "t_1 g < t_2 g" "t_2 g < t_3 g"
  shows "calculatePointInTrajectory g (t_2 g) = xcd g"
  using assms by (simp add: calculatePointInTrajectory_def inRange_def)

lemma point_at_t_3:
  assumes "t_1 g < t_2 g" "t_2 g < t_3 g" "t_3 g < t_4 g"
  shows "calculatePointInTrajectory g (t_3 g) = xcd g"
  using assms by (simp add: calculatePointInTrajectory_def inRange_def)

lemma point_left_t_1:
  assumes "t_0 g < t_1 g"
  shows "(calculatePointInTrajectory g \<longlongrightarrow> xc) (at_left (t_1 g))"
proof (rule left_limit_of_piece [OF assms])
  show "calculatePointInTrajectory g t =
      add3 xh (div3 (scale3 (sub3 xc xh) (t - t_0 g)) (t_1 g - t_0 g))"
    if "t_0 g < t" "t < t_1 g" for t
    using that by (simp add: calculatePointInTrajectory_def inRange_def)
  have d: "t_1 g - t_0 g \<noteq> 0" using assms by simp
  from lerp_tendsto [OF d, of xh xc "t_0 g" "t_1 g"]
  show "((\<lambda>t. add3 xh (div3 (scale3 (sub3 xc xh) (t - t_0 g)) (t_1 g - t_0 g))) \<longlongrightarrow> xc)
      (at_left (t_1 g))"
    by (simp add: lerp_end [OF d])
qed

lemma point_left_t_2:
  assumes "t_1 g < t_2 g"
  shows "(calculatePointInTrajectory g \<longlongrightarrow> arc_end g) (at_left (t_2 g))"
proof (rule left_limit_of_piece [OF assms])
  let ?t0 = "atan2 (x3 xc - x_offset) (y3 xc - y_offset)"
  let ?tf = "atan2 (x3 (xcd g) - x_offset) (y3 (xcd g) - y_offset)"
  let ?new = "\<lambda>t. (((t - t_1 g) * (?tf - ?t0)) / (t_2 g - t_1 g)) + ?t0"
  show "calculatePointInTrajectory g t =
      (board_r * sin (?new t) + x_offset, board_r * cos (?new t) + y_offset, z3 xc)"
    if "t_1 g < t" "t < t_2 g" for t
    using that by (simp add: calculatePointInTrajectory_def inRange_def Let_def)
  have d: "t_2 g - t_1 g \<noteq> 0" using assms by simp
  have "(?new \<longlongrightarrow> ?new (t_2 g)) (at_left (t_2 g))"
    by (intro tendsto_intros) (rule d)
  moreover have "?new (t_2 g) = ?tf" using d by simp
  ultimately have n: "(?new \<longlongrightarrow> ?tf) (at_left (t_2 g))" by simp
  show "((\<lambda>t. (board_r * sin (?new t) + x_offset, board_r * cos (?new t) + y_offset, z3 xc))
      \<longlongrightarrow> arc_end g) (at_left (t_2 g))"
    unfolding arc_end_def Let_def
    by (intro tendsto_intros tendsto_sin [OF n] tendsto_cos [OF n])
qed

lemma point_left_t_3:
  assumes "t_1 g < t_2 g" "t_2 g < t_3 g"
  shows "(calculatePointInTrajectory g \<longlongrightarrow> xcd g) (at_left (t_3 g))"
proof (rule left_limit_of_piece [OF assms(2)])
  show "calculatePointInTrajectory g t = xcd g" if "t_2 g < t" "t < t_3 g" for t
    using that assms by (simp add: calculatePointInTrajectory_def inRange_def)
  show "((\<lambda>t. xcd g) \<longlongrightarrow> xcd g) (at_left (t_3 g))" by simp
qed

lemma arc_end_on_circle:
  assumes "on_board_circle g"
  shows "arc_end g = xcd g"
proof -
  obtain cx cy cz cw where c: "cue_start_pos g = (cx, cy, cz, cw)"
    by (cases "cue_start_pos g")
  with assms have on: "cx\<^sup>2 + cy\<^sup>2 = board_r\<^sup>2" "cz = 0" "cw = 1"
    by (simp_all add: on_board_circle_def)
  have x: "xcd g = (cy + x_offset, - cx + y_offset, z_offset)"
    by (simp add: xcd_def c on mat4_vec_def dot4_def head3_def)
  have "(- cx)\<^sup>2 + cy\<^sup>2 = board_r\<^sup>2" using on(1) by simp
  note circle_atan2 [OF board_r_pos this]
  then show ?thesis
    by (simp add: arc_end_def x x3_def y3_def z3_def xc_def)
qed

lemma rot_at_t_1:
  assumes "t_0 g < t_1 g" "t_1 g < t_2 g"
  shows "calculateRotationInTrajectory g (t_1 g) ps =
         mat_mul3 (AngleAxisd_UnitZ (- pi / 4)) home_orientation"
  using assms by (simp add: calculateRotationInTrajectory_def inRange_def)

lemma rot_at_t_2:
  assumes "t_1 g < t_2 g" "t_2 g < t_3 g"
  shows "calculateRotationInTrajectory g (t_2 g) ps = mat_mul3 (hit_rot ps) home_orientation"
  using assms by (simp add: calculateRotationInTrajectory_def inRange_def)

lemma rot_at_t_3:
  assumes "t_1 g < t_2 g" "t_2 g < t_3 g" "t_3 g < t_4 g"
  shows "calculateRotationInTrajectory g (t_3 g) ps = mat_mul3 (hit_rot ps) home_orientation"
  using assms by (simp add: calculateRotationInTrajectory_def inRange_def)

lemma rot_left_t_1:
  assumes "t_0 g < t_1 g"
  shows "((\<lambda>t. calculateRotationInTrajectory g t ps) \<longlongrightarrow>
           mat_mul3 (AngleAxisd_UnitZ (- pi / 4)) home_orientation) (at_left (t_1 g))"
proof (rule left_limit_of_piece [OF assms])
  let ?ang = "\<lambda>t. - pi / 4 * (t - t_0 g) / (t_1 g - t_0 g)"
  show "calculateRotationInTrajectory g t ps =
      mat_mul3 (AngleAxisd_UnitZ (?ang t)) home_orientation"
    if "t_0 g < t" "t < t_1 g" for t
    using that by (simp add: calculateRotationInTrajectory_def inRange_def)
  have d: "t_1 g - t_0 g \<noteq> 0" using assms by simp
  have l: "(?ang \<longlongrightarrow> ?ang (t_1 g)) (at_left (t_1 g))"
    by (intro tendsto_intros) (rule d)
  have v: "?ang (t_1 g) = - pi / 4"
    by (rule nonzero_mult_div_cancel_right [OF d])
  have "(?ang \<longlongrightarrow> - pi / 4) (at_left (t_1 g))"
    using l unfolding v .
  then show "((\<lambda>t. mat_mul3 (AngleAxisd_UnitZ (?ang t)) home_orientation) \<longlongrightarrow>
      mat_mul3 (AngleAxisd_UnitZ (- pi / 4)) home_orientation) (at_left (t_1 g))"
    by (rule rot_tendsto)
qed

lemma rot_left_t_2:
  assumes "t_1 g < t_2 g"
  shows "((\<lambda>t. calculateRotationInTrajectory g t ps) \<longlongrightarrow>
           mat_mul3 (AngleAxisd_UnitZ (- pi / 4)) home_orientation) (at_left (t_2 g))"
proof (rule left_limit_of_piece [OF assms])
  show "calculateRotationInTrajectory g t ps =
      mat_mul3 (AngleAxisd_UnitZ (- pi / 4)) home_orientation"
    if "t_1 g < t" "t < t_2 g" for t
    using that by (simp add: calculateRotationInTrajectory_def inRange_def)
  show "((\<lambda>t. mat_mul3 (AngleAxisd_UnitZ (- pi / 4)) home_orientation) \<longlongrightarrow>
      mat_mul3 (AngleAxisd_UnitZ (- pi / 4)) home_orientation) (at_left (t_2 g))"
    by simp
qed

lemma rot_left_t_3:
  assumes "t_1 g < t_2 g" "t_2 g < t_3 g"
  shows "((\<lambda>t. calculateRotationInTrajectory g t ps) \<longlongrightarrow>
           mat_mul3 (hit_rot ps) home_orientation) (at_left (t_3 g))"
proof (rule left_limit_of_piece [OF assms(2)])
  show "calculateRotationInTrajectory g t ps = mat_mul3 (hit_rot ps) home_orientation"
    if "t_2 g < t" "t < t_3 g" for t
    using that assms by (simp add: calculateRotationInTrajectory_def inRange_def)
  show "((\<lambda>t. mat_mul3 (hit_rot ps) home_orientation) \<longlongrightarrow>
      mat_mul3 (hit_rot ps) home_orientation) (at_left (t_3 g))"
    by simp
qed

lemma hit_rot_quarter: "hit_rot (pi / 4) = AngleAxisd_UnitZ (- pi / 4)"
proof -
  have "- pi / 2 + pi / 4 = - pi / 4" by simp
  then show ?thesis unfolding hit_rot_def AngleAxisd_UnitZ_def by (simp only:)
qed

lemma yaw_quarter_entry:
  "fst (fst (mat_mul3 (AngleAxisd_UnitZ (- pi / 4)) home_orientation)) < 0.7"
proof -
  have e: "fst (fst (mat_mul3 (AngleAxisd_UnitZ (- pi / 4)) home_orientation)) =
      cos (pi / 4) * 0.7360145 - sin (pi / 4) * 0.0413102"
    by (simp add: mat_mul3_def AngleAxisd_UnitZ_def dot3_def col3_def home_orientation_def)
  have "sqrt 2 < 2" by (rule real_less_lsqrt) simp_all
  then have "sqrt 2 / 2 * 0.7360145 - sqrt 2 / 2 * 0.0413102 < (0.7 :: real)" by simp
  then show ?thesis unfolding e cos_45 sin_45 .
qed

lemma hit_rot_half: "mat_mul3 (hit_rot (pi / 2)) home_orientation = home_orientation"
  by (simp add: hit_rot_def mat_mul3_def dot3_def col3_def home_orientation_def)

lemma example_shot_slots:
  "t_0 example_shot = 0" "t_1 example_shot = 4" "t_2 example_shot = 8"
  "t_3 example_shot = 12" "t_4 example_shot = 13"
  by (simp_all add: example_shot_def initial_def)

lemma example_arc_end: "x3 (arc_end example_shot) \<noteq> x3 (xcd example_shot)"
proof
  assume a: "x3 (arc_end example_shot) = x3 (xcd example_shot)"
  have x: "xcd example_shot = (0.05 + x_offset, - 0.1 + y_offset, z_offset)"
    by (simp add: xcd_def example_shot_def mat4_vec_def dot4_def head3_def)
  have v: "(- 0.1 :: real)\<^sup>2 + 0.05\<^sup>2 = 0.0125"
    by (simp add: power2_eq_square)
  have "sin (atan2 0.05 (- 0.1)) = 0.05 / sqrt ((- 0.1)\<^sup>2 + 0.05\<^sup>2)"
    by (rule sin_atan2) simp
  then have s: "sin (atan2 0.05 (- 0.1)) = 0.05 / sqrt 0.0125"
    unfolding v .
  have "board_r * sin (atan2 0.05 (- 0.1)) = 0.05"
    using a by (simp add: arc_end_def Let_def x x3_def y3_def)
  then have "board_r * (0.05 / sqrt 0.0125) = 0.05"
    unfolding s .
  moreover have p: "0 < sqrt (0.0125 :: real)" by simp
  ultimately have "board_r = sqrt 0.0125"
    by (simp add: field_simps)
  then have "board_r\<^sup>2 = (sqrt 0.0125)\<^sup>2" by simp
  then have "board_r\<^sup>2 = 0.0125" by simp
  then show False by (simp add: board_r_def power2_eq_square)
qed

lemma same_angle:
  fixes a b :: real
  shows "cos a = cos b \<and> sin a = sin b \<longleftrightarrow> (\<exists>k::int. a = b + 2 * pi * of_int k)"
proof
  assume h: "cos a = cos b \<and> sin a = sin b"
  have "cos (a - b) = cos a * cos b + sin a * sin b" by (rule cos_diff)
  also have "\<dots> = (cos b)\<^sup>2 + (sin b)\<^sup>2" using h by (simp add: power2_eq_square)
  finally have "cos (a - b) = 1" by simp
  then obtain n :: int where "a - b = of_int n * 2 * pi"
    using cos_one_2pi_int [of "a - b"] by blast
  then have "a = b + 2 * pi * of_int n" by (simp add: algebra_simps)
  then show "\<exists>k::int. a = b + 2 * pi * of_int k" ..
next
  assume "\<exists>k::int. a = b + 2 * pi * of_int k"
  then obtain k :: int where a: "a = b + 2 * pi * of_int k" ..
  show "cos a = cos b \<and> sin a = sin b"
    unfolding a by (simp add: cos_add sin_add)
qed

lemma yaw_cancel:
  assumes "mat_mul3 (hit_rot ps) home_orientation =
    mat_mul3 (AngleAxisd_UnitZ b) home_orientation"
  shows "cos (- pi / 2 + ps) = cos b \<and> sin (- pi / 2 + ps) = sin b"
proof -
  define c where "c = cos (- pi / 2 + ps)"
  define s where "s = sin (- pi / 2 + ps)"
  have l: "mat_mul3 (hit_rot ps) home_orientation =
      ((c * 0.7360145 + s * 0.0413102, c * 0.6763110 - s * 0.0009846,
        c * 0.0297644 - s * 0.9991459),
       (s * 0.7360145 - c * 0.0413102, s * 0.6763110 + c * 0.0009846,
        s * 0.0297644 + c * 0.9991459),
       (0.6757041, -0.7366155, 0.0286632))"
    by (simp add: mat_mul3_def hit_rot_def dot3_def col3_def home_orientation_def c_def s_def)
  have r: "mat_mul3 (AngleAxisd_UnitZ b) home_orientation =
      ((cos b * 0.7360145 + sin b * 0.0413102, cos b * 0.6763110 - sin b * 0.0009846,
        cos b * 0.0297644 - sin b * 0.9991459),
       (sin b * 0.7360145 - cos b * 0.0413102, sin b * 0.6763110 + cos b * 0.0009846,
        sin b * 0.0297644 + cos b * 0.9991459),
       (0.6757041, -0.7366155, 0.0286632))"
    by (simp add: mat_mul3_def AngleAxisd_UnitZ_def dot3_def col3_def home_orientation_def)
  from assms have e1: "c * 0.7360145 + s * 0.0413102 = cos b * 0.7360145 + sin b * 0.0413102"
    and e2: "c * 0.6763110 - s * 0.0009846 = cos b * 0.6763110 - sin b * 0.0009846"
    unfolding l r by simp_all
  from e1 have f1: "7360145 * c + 413102 * s = 7360145 * cos b + 413102 * sin b"
    by simp
  from e2 have f2: "6763110 * c - 9846 * s = 6763110 * cos b - 9846 * sin b"
    by simp
  from f1 f2 have "c = cos b" by linarith
  moreover from f1 f2 have "s = sin b" by linarith
  ultimately show ?thesis unfolding c_def s_def by simp
qed

lemma yaw_step_iff:
  "mat_mul3 (hit_rot ps) home_orientation =
     mat_mul3 (AngleAxisd_UnitZ (- pi / 4)) home_orientation \<longleftrightarrow>
   (\<exists>k::int. ps = pi / 4 + 2 * pi * of_int k)"
proof
  assume "mat_mul3 (hit_rot ps) home_orientation =
     mat_mul3 (AngleAxisd_UnitZ (- pi / 4)) home_orientation"
  from yaw_cancel [OF this] obtain k :: int where "- pi / 2 + ps = - pi / 4 + 2 * pi * of_int k"
    unfolding same_angle by blast
  then have "ps = pi / 4 + 2 * pi * of_int k" by simp
  then show "\<exists>k::int. ps = pi / 4 + 2 * pi * of_int k" ..
next
  assume "\<exists>k::int. ps = pi / 4 + 2 * pi * of_int k"
  then obtain k :: int where "ps = pi / 4 + 2 * pi * of_int k" ..
  then have "- pi / 2 + ps = - pi / 4 + 2 * pi * of_int k" by simp
  then have "cos (- pi / 2 + ps) = cos (- pi / 4) \<and> sin (- pi / 2 + ps) = sin (- pi / 4)"
    unfolding same_angle by blast
  then have "hit_rot ps = AngleAxisd_UnitZ (- pi / 4)"
    unfolding hit_rot_def AngleAxisd_UnitZ_def by simp
  then show "mat_mul3 (hit_rot ps) home_orientation =
     mat_mul3 (AngleAxisd_UnitZ (- pi / 4)) home_orientation" by simp
qed

lemma arc_end_circle_iff:
  assumes c: "cue_start_pos g = (cx, cy, 0, 1)"
  shows "arc_end g = xcd g \<longleftrightarrow> cx\<^sup>2 + cy\<^sup>2 = board_r\<^sup>2"
proof
  assume "cx\<^sup>2 + cy\<^sup>2 = board_r\<^sup>2"
  then have "on_board_circle g" by (simp add: on_board_circle_def c)
  then show "arc_end g = xcd g" by (rule arc_end_on_circle)
next
  assume a: "arc_end g = xcd g"
  have x: "xcd g = (cy + x_offset, - cx + y_offset, z_offset)"
    by (simp add: xcd_def c mat4_vec_def dot4_def head3_def)
  define tf where "tf = atan2 cy (- cx)"
  from a have "board_r * sin tf = cy" "board_r * cos tf = - cx"
    by (simp_all add: arc_end_def Let_def x x3_def y3_def tf_def)
  with circle_point [of board_r tf] show "cx\<^sup>2 + cy\<^sup>2 = board_r\<^sup>2" by simp
qed

lemma example_arc_gap: "0.06 < x3 (arc_end example_shot) - x3 (xcd example_shot)"
proof -
  have x: "xcd example_shot = (0.05 + x_offset, - 0.1 + y_offset, z_offset)"
    by (simp add: xcd_def example_shot_def mat4_vec_def dot4_def head3_def)
  have v: "(- 0.1 :: real)\<^sup>2 + 0.05\<^sup>2 = 0.0125"
    by (simp add: power2_eq_square)
  have "sin (atan2 0.05 (- 0.1)) = 0.05 / sqrt ((- 0.1)\<^sup>2 + 0.05\<^sup>2)"
    by (rule sin_atan2) simp
  then have s: "sin (atan2 0.05 (- 0.1)) = 0.05 / sqrt 0.0125"
    unfolding v .
  define q :: real where "q = sqrt 0.0125"
  have p: "0 < q" by (simp add: q_def)
  have "q < 0.112" unfolding q_def by (rule real_less_lsqrt) (simp_all add: power2_eq_square)
  then have "0.11 * q < board_r * 0.05" by (simp add: board_r_def)
  then have "0.11 < board_r * 0.05 / q" using p by (simp add: pos_less_divide_eq)
  then have g: "0.11 < board_r * (0.05 / sqrt 0.0125)" by (simp add: q_def)
  have "x3 (arc_end example_shot) - x3 (xcd example_shot) =
      board_r * sin (atan2 0.05 (- 0.1)) - 0.05"
    by (simp add: arc_end_def Let_def x x3_def y3_def)
  also have "\<dots> = board_r * (0.05 / sqrt 0.0125) - 0.05" unfolding s ..
  finally show ?thesis using g by simp
qed
text \<open>
  C2. For every input, \<^verbatim>\<open>robotReachedGoal\<close> returns true exactly when the weighted
  error \<open>100*|xdot| + 10*|x - x_desired| + 1000*|xddot| + 1000*|omega| + 1000*|alpha|\<close>
  is strictly below epsilon, where epsilon is 3 in \<^verbatim>\<open>panda_interface\<close> and 0.001 in
  \<^verbatim>\<open>panda_starter_code\<close>; the two thresholds differ by a factor of 3000.
\<close>

theorem robotReachedGoal_iff:
  "(robotReachedGoal x x_desired xdot xddot omega alpha \<longleftrightarrow>
      100 * vnorm xdot + 10 * vnorm (vminus x x_desired) + 1000 * vnorm xddot +
      1000 * vnorm omega + 1000 * vnorm alpha < 3) \<and>
   (robotReachedGoal_starter x x_desired xdot xddot omega alpha \<longleftrightarrow>
      100 * vnorm xdot + 10 * vnorm (vminus x x_desired) + 1000 * vnorm xddot +
      1000 * vnorm omega + 1000 * vnorm alpha < 0.001) \<and>
   (3 :: real) = 3000 * 0.001"
  by (simp add: robotReachedGoal_def robotReachedGoal_starter_def Let_def)
text \<open>
  C1. In an execute cycle in which every transition condition comes to hold, the phase
  goes through approach, track, shot and return in that order, each once and without
  going back, and then the mode is \<^verbatim>\<open>WAIT_MODE\<close> again with the phase reset to approach:
  after \<open>k\<close> iterations the mode and the phase are those of \<open>phase_at\<close>, in
  \<^verbatim>\<open>panda_interface\<close> and, with its own durations, in \<^verbatim>\<open>panda_starter_code\<close>; the time
  slots stay as they were.
\<close>

theorem execute_cycle_phases:
  "(mode s = EXECUTE_MODE \<and> state s = JOINT_CONTROLLER \<and> cycle_consts s \<and>
    (\<forall>e\<in>set ins. sized e s) \<and> cycle_inputs nj nh ins \<longrightarrow>
      (\<forall>k \<le> nh + 1. \<exists>s'. run_loop stod (take k ins) s = Inr s' \<and>
          (mode s', state s') = phase_at nj nh k \<and> slots s' = slots s)) \<and>
   (mode z = EXECUTE_MODE \<and> state z = JOINT_CONTROLLER \<and> cycle_consts_starter z \<and>
    (\<forall>e\<in>set jns. sized e z) \<and> cycle_inputs_starter mj (shot_ticks z) mh jns \<longrightarrow>
      (\<forall>k \<le> mh + 1. \<exists>z'. run_loop_starter (take k jns) z = Inr z' \<and>
          (mode z', state z') = phase_at_starter mj (shot_ticks z) mh k \<and>
          slots z' = slots z))"
proof (intro conjI impI allI)
  fix k
  assume h: "mode s = EXECUTE_MODE \<and> state s = JOINT_CONTROLLER \<and> cycle_consts s \<and>
    (\<forall>e\<in>set ins. sized e s) \<and> cycle_inputs nj nh ins" and k: "k \<le> nh + 1"
  then have "\<exists>s'. run_loop stod (take k ins) s = Inr s' \<and> cycle_inv nj nh k s' \<and>
      same_consts s s'"
    by (intro cycle_run) (simp_all add: cycle_inputs_def)
  then show "\<exists>s'. run_loop stod (take k ins) s = Inr s' \<and>
      (mode s', state s') = phase_at nj nh k \<and> slots s' = slots s"
    by (auto simp: cycle_inv_def same_consts_def)
next
  fix k
  assume h: "mode z = EXECUTE_MODE \<and> state z = JOINT_CONTROLLER \<and> cycle_consts_starter z \<and>
    (\<forall>e\<in>set jns. sized e z) \<and> cycle_inputs_starter mj (shot_ticks z) mh jns"
    and k: "k \<le> mh + 1"
  then have "\<exists>z'. run_loop_starter (take k jns) z = Inr z' \<and>
      cycle_inv_starter mj (shot_ticks z) mh k z' \<and> same_consts z z'"
    by (intro cycle_run_starter) (simp_all add: cycle_inputs_starter_def)
  then show "\<exists>z'. run_loop_starter (take k jns) z = Inr z' \<and>
      (mode z', state z') = phase_at_starter mj (shot_ticks z) mh k \<and> slots z' = slots z"
    by (auto simp: cycle_inv_starter_def same_consts_def)
qed

theorem execute_cycle_phases_witness:
  "cycle_inputs 0 14302 (replicate 14303 (example_in ''execute'' q_init_desired xh)) \<and>
   (\<exists>s'. run_loop example_stod (replicate 14303 (example_in ''execute'' q_init_desired xh))
            ((initial memory0)\<lparr>mode := EXECUTE_MODE\<rparr>) = Inr s' \<and>
          mode s' = WAIT_MODE \<and> state s' = JOINT_CONTROLLER) \<and>
   shot_ticks ((initial_starter memory0 1 0)\<lparr>mode := EXECUTE_MODE\<rparr>) = 35574 \<and>
   cycle_inputs_starter 0 35574 50577
     (replicate 50578 (example_in ''execute'' q_init_desired_starter xh_starter)) \<and>
   (\<exists>z'. run_loop_starter
            (replicate 50578 (example_in ''execute'' q_init_desired_starter xh_starter))
            ((initial_starter memory0 1 0)\<lparr>mode := EXECUTE_MODE\<rparr>) = Inr z' \<and>
          mode z' = WAIT_MODE \<and> state z' = JOINT_CONTROLLER)"
proof -
  define e where "e = example_in ''execute'' q_init_desired xh"
  define s where "s = (initial memory0)\<lparr>mode := EXECUTE_MODE\<rparr>"
  define f where "f = example_in ''execute'' q_init_desired_starter xh_starter"
  define z where "z = (initial_starter memory0 1 0)\<lparr>mode := EXECUTE_MODE\<rparr>"
  define ins where "ins = replicate 14303 e"
  define jns where "jns = replicate 50578 f"
  have s: "mode s = EXECUTE_MODE" "state s = JOINT_CONTROLLER" "cycle_consts s"
    by (simp_all add: s_def initial_def cycle_consts_def slots_def)
  have "sized e s"
    by (simp add: e_def s_def sized_def example_in_def initial_def memory0_def
        q_init_desired_def)
  then have sz: "\<forall>x\<in>set ins. sized x s"
    by (simp add: ins_def)
  have je: "joint_goal e"
    by (simp add: e_def joint_goal_def example_in_def vnorm_def vminus_def q_init_desired_def)
  have he: "home_reached e"
    by (simp add: e_def home_reached_def robotReachedGoal_def example_in_def vnorm_def
        vminus_def toX_def xh_def)
  have ci: "cycle_inputs 0 14302 ins"
    using je he by (simp add: cycle_inputs_def ins_def)
  have tt: "total_time z = 20.574"
    by (simp add: z_def initial_starter_def flick_time_starter_def ee_length_starter_def)
  have K: "shot_ticks z = 35574"
    unfolding shot_ticks_def tt by simp
  have z: "mode z = EXECUTE_MODE" "state z = JOINT_CONTROLLER" "cycle_consts_starter z"
    using tt by (simp_all add: z_def initial_starter_def cycle_consts_starter_def slots_def)
  have "sized f z"
    by (simp add: f_def z_def sized_def example_in_def initial_starter_def memory0_def
        q_init_desired_starter_def)
  then have szz: "\<forall>x\<in>set jns. sized x z"
    by (simp add: jns_def)
  have jf: "joint_goal_starter f"
    by (simp add: f_def joint_goal_starter_def example_in_def vnorm_def vminus_def
        q_init_desired_starter_def)
  have hf: "home_reached_starter f"
    by (simp add: f_def home_reached_starter_def robotReachedGoal_starter_def example_in_def
        vnorm_def vminus_def toX_def xh_starter_def)
  have cz: "cycle_inputs_starter 0 (shot_ticks z) 50577 jns"
    using jf hf by (simp add: cycle_inputs_starter_def jns_def K)
  note inst = execute_cycle_phases [where s = s and ins = ins and nj = 0
      and nh = 14302 and stod = example_stod and z = z and jns = jns
      and mj = 0 and mh = 50577]
  have h1: "mode s = EXECUTE_MODE \<and> state s = JOINT_CONTROLLER \<and> cycle_consts s \<and>
    (\<forall>e\<in>set ins. sized e s) \<and> cycle_inputs 0 14302 ins"
    using s sz ci by (intro conjI)
  have t1: "take 14303 ins = ins" by (simp add: ins_def)
  have "\<exists>s'. run_loop example_stod (take 14303 ins) s = Inr s' \<and>
        (mode s', state s') = phase_at 0 14302 14303 \<and> slots s' = slots s"
    by (rule inst [THEN conjunct1, rule_format, OF h1]) simp
  then have a: "\<exists>s'. run_loop example_stod ins s = Inr s' \<and>
        mode s' = WAIT_MODE \<and> state s' = JOINT_CONTROLLER"
    unfolding t1 by (auto simp: phase_at_def)
  have h2: "mode z = EXECUTE_MODE \<and> state z = JOINT_CONTROLLER \<and> cycle_consts_starter z \<and>
    (\<forall>e\<in>set jns. sized e z) \<and> cycle_inputs_starter 0 (shot_ticks z) 50577 jns"
    using z szz cz by (intro conjI)
  have t2: "take 50578 jns = jns" by (simp add: jns_def)
  have "\<exists>z'. run_loop_starter (take 50578 jns) z = Inr z' \<and>
        (mode z', state z') = phase_at_starter 0 (shot_ticks z) 50577 50578 \<and>
        slots z' = slots z"
    by (rule inst [THEN conjunct2, rule_format, OF h2]) simp
  then have b: "\<exists>z'. run_loop_starter jns z = Inr z' \<and>
        mode z' = WAIT_MODE \<and> state z' = JOINT_CONTROLLER"
    unfolding t2 K by (auto simp: phase_at_starter_def)
  have cz': "cycle_inputs_starter 0 35574 50577 jns"
    using cz unfolding K .
  from ci a K cz' b show ?thesis
    unfolding e_def s_def f_def z_def ins_def jns_def by (intro conjI)
qed

text \<open>
  C3 (amended). For every drop-off position and strike angle the desired position and
  orientation have no jump at \<open>t_1\<close> and at \<open>t_3\<close>: the limit from the left is the
  value at the boundary. At \<open>t_2\<close> the limit from the left of the position is the end of
  the arc and that of the orientation is the yaw by \<open>-pi/4\<close>; they are the values at
  \<open>t_2\<close> when the drop-off point lies on the board circle and when the strike angle is
  \<open>pi/4\<close>. These conditions are exact: for a drop-off position \<open>(x, y, 0, 1)\<close>, as an
  activation writes it, the position has no jump at \<open>t_2\<close> if and only if
  \<open>x\<^sup>2 + y\<^sup>2\<close> is the square of the board radius, and the orientation has no jump at
  \<open>t_2\<close> if and only if the strike angle is \<open>pi/4 + 2 k pi\<close> for an integer \<open>k\<close>.
\<close>

theorem pose_continuity:
  assumes "t_0 g < t_1 g" "t_1 g < t_2 g" "t_2 g < t_3 g" "t_3 g < t_4 g"
  shows "(calculatePointInTrajectory g \<longlongrightarrow> calculatePointInTrajectory g (t_1 g))
           (at_left (t_1 g)) \<and>
         ((\<lambda>t. calculateRotationInTrajectory g t ps) \<longlongrightarrow>
            calculateRotationInTrajectory g (t_1 g) ps) (at_left (t_1 g)) \<and>
         (calculatePointInTrajectory g \<longlongrightarrow> calculatePointInTrajectory g (t_3 g))
           (at_left (t_3 g)) \<and>
         ((\<lambda>t. calculateRotationInTrajectory g t ps) \<longlongrightarrow>
            calculateRotationInTrajectory g (t_3 g) ps) (at_left (t_3 g)) \<and>
         (calculatePointInTrajectory g \<longlongrightarrow> arc_end g) (at_left (t_2 g)) \<and>
         (on_board_circle g \<longrightarrow> arc_end g = calculatePointInTrajectory g (t_2 g)) \<and>
         ((\<lambda>t. calculateRotationInTrajectory g t ps) \<longlongrightarrow>
            mat_mul3 (AngleAxisd_UnitZ (- pi / 4)) home_orientation) (at_left (t_2 g)) \<and>
         (ps = pi / 4 \<longrightarrow>
            mat_mul3 (AngleAxisd_UnitZ (- pi / 4)) home_orientation =
            calculateRotationInTrajectory g (t_2 g) ps) \<and>
         (\<forall>cx cy. cue_start_pos g = (cx, cy, 0, 1) \<longrightarrow>
            ((calculatePointInTrajectory g \<longlongrightarrow> calculatePointInTrajectory g (t_2 g))
               (at_left (t_2 g)) \<longleftrightarrow>
             cx\<^sup>2 + cy\<^sup>2 = board_r\<^sup>2)) \<and>
         (((\<lambda>t. calculateRotationInTrajectory g t ps) \<longlongrightarrow>
             calculateRotationInTrajectory g (t_2 g) ps) (at_left (t_2 g)) \<longleftrightarrow>
          (\<exists>k::int. ps = pi / 4 + 2 * pi * of_int k))"
proof (intro conjI impI allI)
  show "(calculatePointInTrajectory g \<longlongrightarrow> calculatePointInTrajectory g (t_1 g))
      (at_left (t_1 g))"
    using point_left_t_1 [OF assms(1)] by (simp add: point_at_t_1 [OF assms(1,2)])
  show "((\<lambda>t. calculateRotationInTrajectory g t ps) \<longlongrightarrow>
      calculateRotationInTrajectory g (t_1 g) ps) (at_left (t_1 g))"
    using rot_left_t_1 [OF assms(1)] by (simp add: rot_at_t_1 [OF assms(1,2)])
  show "(calculatePointInTrajectory g \<longlongrightarrow> calculatePointInTrajectory g (t_3 g))
      (at_left (t_3 g))"
    using point_left_t_3 [OF assms(2,3)] by (simp add: point_at_t_3 [OF assms(2,3,4)])
  show "((\<lambda>t. calculateRotationInTrajectory g t ps) \<longlongrightarrow>
      calculateRotationInTrajectory g (t_3 g) ps) (at_left (t_3 g))"
    using rot_left_t_3 [OF assms(2,3)] by (simp add: rot_at_t_3 [OF assms(2,3,4)])
  show "(calculatePointInTrajectory g \<longlongrightarrow> arc_end g) (at_left (t_2 g))"
    by (rule point_left_t_2 [OF assms(2)])
  show "arc_end g = calculatePointInTrajectory g (t_2 g)" if "on_board_circle g"
    using arc_end_on_circle [OF that] by (simp add: point_at_t_2 [OF assms(2,3)])
  show "((\<lambda>t. calculateRotationInTrajectory g t ps) \<longlongrightarrow>
      mat_mul3 (AngleAxisd_UnitZ (- pi / 4)) home_orientation) (at_left (t_2 g))"
    by (rule rot_left_t_2 [OF assms(2)])
  show "mat_mul3 (AngleAxisd_UnitZ (- pi / 4)) home_orientation =
      calculateRotationInTrajectory g (t_2 g) ps" if "ps = pi / 4"
    unfolding that rot_at_t_2 [OF assms(2,3)] hit_rot_quarter ..
  show "(calculatePointInTrajectory g \<longlongrightarrow> calculatePointInTrajectory g (t_2 g))
      (at_left (t_2 g)) \<longleftrightarrow> cx\<^sup>2 + cy\<^sup>2 = board_r\<^sup>2"
    if c: "cue_start_pos g = (cx, cy, 0, 1)" for cx cy
  proof
    assume "(calculatePointInTrajectory g \<longlongrightarrow> calculatePointInTrajectory g (t_2 g))
      (at_left (t_2 g))"
    from tendsto_unique [OF trivial_limit_at_left_real point_left_t_2 [OF assms(2)] this]
    have "arc_end g = xcd g"
      by (simp only: point_at_t_2 [OF assms(2,3)])
    then show "cx\<^sup>2 + cy\<^sup>2 = board_r\<^sup>2"
      by (simp only: arc_end_circle_iff [OF c])
  next
    assume "cx\<^sup>2 + cy\<^sup>2 = board_r\<^sup>2"
    then have "arc_end g = xcd g"
      by (simp only: arc_end_circle_iff [OF c])
    then have "arc_end g = calculatePointInTrajectory g (t_2 g)"
      by (simp only: point_at_t_2 [OF assms(2,3)])
    with point_left_t_2 [OF assms(2)]
    show "(calculatePointInTrajectory g \<longlongrightarrow> calculatePointInTrajectory g (t_2 g))
      (at_left (t_2 g))" by (simp only:)
  qed
  show "((\<lambda>t. calculateRotationInTrajectory g t ps) \<longlongrightarrow>
      calculateRotationInTrajectory g (t_2 g) ps) (at_left (t_2 g)) \<longleftrightarrow>
      (\<exists>k::int. ps = pi / 4 + 2 * pi * of_int k)"
  proof
    assume "((\<lambda>t. calculateRotationInTrajectory g t ps) \<longlongrightarrow>
      calculateRotationInTrajectory g (t_2 g) ps) (at_left (t_2 g))"
    from tendsto_unique [OF trivial_limit_at_left_real this rot_left_t_2 [OF assms(2)]]
    have "mat_mul3 (hit_rot ps) home_orientation =
        mat_mul3 (AngleAxisd_UnitZ (- pi / 4)) home_orientation"
      by (simp only: rot_at_t_2 [OF assms(2,3)])
    then show "\<exists>k::int. ps = pi / 4 + 2 * pi * of_int k"
      by (simp only: yaw_step_iff)
  next
    assume "\<exists>k::int. ps = pi / 4 + 2 * pi * of_int k"
    then have "mat_mul3 (hit_rot ps) home_orientation =
        mat_mul3 (AngleAxisd_UnitZ (- pi / 4)) home_orientation"
      by (simp only: yaw_step_iff)
    then have "mat_mul3 (AngleAxisd_UnitZ (- pi / 4)) home_orientation =
        calculateRotationInTrajectory g (t_2 g) ps"
      by (simp only: rot_at_t_2 [OF assms(2,3)])
    with rot_left_t_2 [OF assms(2)]
    show "((\<lambda>t. calculateRotationInTrajectory g t ps) \<longlongrightarrow>
      calculateRotationInTrajectory g (t_2 g) ps) (at_left (t_2 g))" by (simp only:)
  qed
qed

theorem pose_continuity_witness:
  "on_board_circle example_circle_shot \<and>
   cue_start_pos example_circle_shot = (board_r, 0, 0, 1) \<and>
   board_r\<^sup>2 + 0\<^sup>2 = board_r\<^sup>2 \<and>
   (calculatePointInTrajectory example_circle_shot \<longlongrightarrow>
      calculatePointInTrajectory example_circle_shot 4) (at_left 4) \<and>
   ((\<lambda>t. calculateRotationInTrajectory example_circle_shot t (pi / 4)) \<longlongrightarrow>
      calculateRotationInTrajectory example_circle_shot 4 (pi / 4)) (at_left 4) \<and>
   (calculatePointInTrajectory example_circle_shot \<longlongrightarrow>
      calculatePointInTrajectory example_circle_shot 8) (at_left 8) \<and>
   ((\<lambda>t. calculateRotationInTrajectory example_circle_shot t (pi / 4)) \<longlongrightarrow>
      calculateRotationInTrajectory example_circle_shot 8 (pi / 4)) (at_left 8) \<and>
   (calculatePointInTrajectory example_circle_shot \<longlongrightarrow>
      calculatePointInTrajectory example_circle_shot 12) (at_left 12) \<and>
   ((\<lambda>t. calculateRotationInTrajectory example_circle_shot t (pi / 4)) \<longlongrightarrow>
      calculateRotationInTrajectory example_circle_shot 12 (pi / 4)) (at_left 12)"
proof -
  have s: "t_0 example_circle_shot = 0" "t_1 example_circle_shot = 4"
    "t_2 example_circle_shot = 8" "t_3 example_circle_shot = 12"
    "t_4 example_circle_shot = 13"
    by (simp_all add: example_circle_shot_def initial_def)
  have c: "on_board_circle example_circle_shot"
    by (simp add: on_board_circle_def example_circle_shot_def)
  have o: "t_0 example_circle_shot < t_1 example_circle_shot"
    "t_1 example_circle_shot < t_2 example_circle_shot"
    "t_2 example_circle_shot < t_3 example_circle_shot"
    "t_3 example_circle_shot < t_4 example_circle_shot"
    by (simp_all add: s)
  note inst = pose_continuity [OF o, of "pi / 4", unfolded s]
  from inst have p1: "(calculatePointInTrajectory example_circle_shot \<longlongrightarrow>
      calculatePointInTrajectory example_circle_shot 4) (at_left 4)" by blast
  from inst have r1: "((\<lambda>t. calculateRotationInTrajectory example_circle_shot t (pi / 4)) \<longlongrightarrow>
      calculateRotationInTrajectory example_circle_shot 4 (pi / 4)) (at_left 4)" by blast
  from inst have p3: "(calculatePointInTrajectory example_circle_shot \<longlongrightarrow>
      calculatePointInTrajectory example_circle_shot 12) (at_left 12)" by blast
  from inst have r3: "((\<lambda>t. calculateRotationInTrajectory example_circle_shot t (pi / 4)) \<longlongrightarrow>
      calculateRotationInTrajectory example_circle_shot 12 (pi / 4)) (at_left 12)" by blast
  from inst have pl: "(calculatePointInTrajectory example_circle_shot \<longlongrightarrow>
      arc_end example_circle_shot) (at_left 8)" by blast
  have cs: "cue_start_pos example_circle_shot = (board_r, 0, 0, 1)"
    by (simp add: example_circle_shot_def)
  from inst have "\<forall>cx cy. cue_start_pos example_circle_shot = (cx, cy, 0, 1) \<longrightarrow>
      ((calculatePointInTrajectory example_circle_shot \<longlongrightarrow>
          calculatePointInTrajectory example_circle_shot 8) (at_left 8) \<longleftrightarrow>
       cx\<^sup>2 + cy\<^sup>2 = board_r\<^sup>2)" by blast
  from this [rule_format, OF cs]
  have p2: "(calculatePointInTrajectory example_circle_shot \<longlongrightarrow>
      calculatePointInTrajectory example_circle_shot 8) (at_left 8)" by simp
  from inst c have pe: "arc_end example_circle_shot =
      calculatePointInTrajectory example_circle_shot 8" by blast
  from inst have rl: "((\<lambda>t. calculateRotationInTrajectory example_circle_shot t (pi / 4)) \<longlongrightarrow>
      mat_mul3 (AngleAxisd_UnitZ (- pi / 4)) home_orientation) (at_left 8)" by blast
  from inst have re: "mat_mul3 (AngleAxisd_UnitZ (- pi / 4)) home_orientation =
      calculateRotationInTrajectory example_circle_shot 8 (pi / 4)" by blast
  have sq: "board_r\<^sup>2 + 0\<^sup>2 = board_r\<^sup>2" by simp
  from c cs sq p1 r1 p2 rl [unfolded re] p3 r3 show ?thesis
    by (intro conjI)
qed

text \<open>
  C3 as stated fails at \<open>t_2\<close>: with the drop-off point \<open>(0.1, 0.05)\<close> and the strike
  angle \<open>pi/2\<close> neither the orientation nor the position tends from the left to its
  value at \<open>t_2\<close>. The position tends to the end of the arc, whose first coordinate is
  more than 0.06 m away from that of the position at \<open>t_2\<close>.
\<close>

theorem pose_jump_at_t_2:
  "\<not> ((\<lambda>t. calculateRotationInTrajectory example_shot t (pi / 2)) \<longlongrightarrow>
        calculateRotationInTrajectory example_shot (t_2 example_shot) (pi / 2))
       (at_left (t_2 example_shot)) \<and>
   \<not> (calculatePointInTrajectory example_shot \<longlongrightarrow>
        calculatePointInTrajectory example_shot (t_2 example_shot))
       (at_left (t_2 example_shot)) \<and>
   (calculatePointInTrajectory example_shot \<longlongrightarrow> arc_end example_shot)
     (at_left (t_2 example_shot)) \<and>
   0.06 < x3 (arc_end example_shot) -
     x3 (calculatePointInTrajectory example_shot (t_2 example_shot))"
proof (intro conjI notI)
  have o: "t_1 example_shot < t_2 example_shot" "t_2 example_shot < t_3 example_shot"
    by (simp_all add: example_shot_slots)
  assume "((\<lambda>t. calculateRotationInTrajectory example_shot t (pi / 2)) \<longlongrightarrow>
        calculateRotationInTrajectory example_shot (t_2 example_shot) (pi / 2))
       (at_left (t_2 example_shot))"
  from tendsto_unique [OF trivial_limit_at_left_real this rot_left_t_2 [OF o(1)]]
  have "home_orientation = mat_mul3 (AngleAxisd_UnitZ (- pi / 4)) home_orientation"
    by (simp only: rot_at_t_2 [OF o] hit_rot_half)
  then have "fst (fst (mat_mul3 (AngleAxisd_UnitZ (- pi / 4)) home_orientation)) =
      fst (fst home_orientation)" by simp
  with yaw_quarter_entry show False by (simp add: home_orientation_def)
next
  have o: "t_1 example_shot < t_2 example_shot" "t_2 example_shot < t_3 example_shot"
    by (simp_all add: example_shot_slots)
  assume "(calculatePointInTrajectory example_shot \<longlongrightarrow>
        calculatePointInTrajectory example_shot (t_2 example_shot))
       (at_left (t_2 example_shot))"
  from tendsto_unique [OF trivial_limit_at_left_real this point_left_t_2 [OF o(1)]]
  have "xcd example_shot = arc_end example_shot"
    by (simp only: point_at_t_2 [OF o])
  with example_arc_end show False by simp
next
  have o: "t_1 example_shot < t_2 example_shot" "t_2 example_shot < t_3 example_shot"
    by (simp_all add: example_shot_slots)
  show "(calculatePointInTrajectory example_shot \<longlongrightarrow> arc_end example_shot)
     (at_left (t_2 example_shot))"
    by (rule point_left_t_2 [OF o(1)])
  show "0.06 < x3 (arc_end example_shot) -
     x3 (calculatePointInTrajectory example_shot (t_2 example_shot))"
    unfolding point_at_t_2 [OF o] by (rule example_arc_gap)
qed

text \<open>
  C4 (amended). No iteration writes a boundary of the time slots: \<^verbatim>\<open>t_0\<close>, \<^verbatim>\<open>t_1\<close>,
  \<^verbatim>\<open>t_2\<close>, \<^verbatim>\<open>t_3\<close> and \<^verbatim>\<open>t_4\<close> have after any number of iterations the values they had
  before, also across the step from shot to return.
\<close>

theorem boundaries_never_written:
  "run_loop stod ins s = Inr s' \<Longrightarrow>
   t_0 s' = t_0 s \<and> t_1 s' = t_1 s \<and> t_2 s' = t_2 s \<and> t_3 s' = t_3 s \<and> t_4 s' = t_4 s"
  using run_loop_consts [of stod ins s s'] by (simp add: same_consts_def slots_def)

text \<open>
  C4 as stated fails: in the example cycle the shot begins after iteration 12001 and the
  step from shot to return is iteration 14302; \<^verbatim>\<open>t_4\<close> is 13 before and after it.
\<close>

theorem t_4_not_reanchored:
  "\<exists>s1 s2.
     run_loop example_stod (replicate 14301 (example_in ''execute'' q_init_desired xh))
       ((initial memory0)\<lparr>mode := EXECUTE_MODE\<rparr>) = Inr s1 \<and>
     state s1 = JOINT_CONTROLLER_SHOT \<and> t_4 s1 = 13 \<and>
     run_loop example_stod (replicate 14302 (example_in ''execute'' q_init_desired xh))
       ((initial memory0)\<lparr>mode := EXECUTE_MODE\<rparr>) = Inr s2 \<and>
     state s2 = POSORI_CONTROLLER \<and> t_4 s2 = 13"
proof -
  from example_cycle [of 14301] obtain s1 where
    "run_loop example_stod (replicate 14301 (example_in ''execute'' q_init_desired xh))
       ((initial memory0)\<lparr>mode := EXECUTE_MODE\<rparr>) = Inr s1"
    "(mode s1, state s1) = phase_at 0 14302 14301" "slots s1 = (0, 4, 8, 12, 13)"
    by auto
  moreover from example_cycle [of 14302] obtain s2 where
    "run_loop example_stod (replicate 14302 (example_in ''execute'' q_init_desired xh))
       ((initial memory0)\<lparr>mode := EXECUTE_MODE\<rparr>) = Inr s2"
    "(mode s2, state s2) = phase_at 0 14302 14302" "slots s2 = (0, 4, 8, 12, 13)"
    by auto
  ultimately show ?thesis
    by (simp add: phase_at_def slots_def)
qed

theorem boundaries_never_written_witness:
  "\<exists>s'. run_loop example_stod [example_in ''execute'' q_init_desired xh] (initial memory0) = Inr s' \<and>
     t_0 s' = 0 \<and> t_1 s' = 4 \<and> t_2 s' = 8 \<and> t_3 s' = 12 \<and> t_4 s' = 13"
proof -
  have m: "mode (initial memory0) = WAIT_MODE" by (simp add: initial_def)
  from wait_mode_execute_ok [OF _ example_parses, of "''execute''" q_init_desired xh "initial memory0"]
  obtain s1 where "wait_mode example_stod (example_in ''execute'' q_init_desired xh) (initial memory0) = Inr s1"
    by (auto simp: example_in_def)
  then obtain s' where
    r: "run_loop example_stod [example_in ''execute'' q_init_desired xh] (initial memory0) = Inr s'"
    using m by (simp add: tick_wait)
  from boundaries_never_written [OF r] r show ?thesis
    by (simp add: initial_def)
qed

text \<open>
  C5. While the mode is \<^verbatim>\<open>WAIT_MODE\<close>, an iteration sets it to \<^verbatim>\<open>EXECUTE_MODE\<close>
  exactly when the token read under the mode key is the string \<open>execute\<close>, in both
  programs. For any other string the iteration completes, the mode stays \<^verbatim>\<open>WAIT_MODE\<close>
  and no shot parameter changes. With the token \<open>execute\<close>, \<^verbatim>\<open>panda_interface\<close> sets the
  mode and then parses the shot strings: the iteration completes when the three numbers
  parse, and ends with the exception of \<^verbatim>\<open>std::stod\<close> otherwise.
\<close>

theorem wait_to_execute_on_token:
  assumes "mode s = WAIT_MODE"
  shows "(mode_after (tick stod e s) = EXECUTE_MODE \<longleftrightarrow>
            redis_get e MODE_CHANGE_KEY = ''execute'') \<and>
         (mode_after (tick_starter e s) = EXECUTE_MODE \<longleftrightarrow>
            redis_get e MODE_CHANGE_KEY = ''execute'') \<and>
         (redis_get e MODE_CHANGE_KEY \<noteq> ''execute'' \<longrightarrow>
            (\<exists>s'. tick stod e s = Inr s' \<and> mode s' = WAIT_MODE \<and>
                   shot_parameters s' = shot_parameters s) \<and>
            (\<exists>z'. tick_starter e s = Inr z' \<and> mode z' = WAIT_MODE \<and>
                   shot_parameters z' = shot_parameters s)) \<and>
         (redis_get e MODE_CHANGE_KEY = ''execute'' \<longrightarrow>
            (if shot_strings_parse stod e
             then \<exists>s'. tick stod e s = Inr s' \<and> mode s' = EXECUTE_MODE
             else \<exists>s'. tick stod e s = Inl (Stod_exception, s') \<and> mode s' = EXECUTE_MODE) \<and>
            (\<exists>z'. tick_starter e s = Inr z' \<and> mode z' = EXECUTE_MODE))"
proof -
  have other: "(\<exists>s'. tick stod e s = Inr s' \<and> mode s' = WAIT_MODE \<and>
                   shot_parameters s' = shot_parameters s) \<and>
            (\<exists>z'. tick_starter e s = Inr z' \<and> mode z' = WAIT_MODE \<and>
                   shot_parameters z' = shot_parameters s)"
    if o: "redis_get e MODE_CHANGE_KEY \<noteq> ''execute''"
  proof
    from wait_mode_other [OF o, of stod s] obtain s1 where
      "wait_mode stod e s = Inr s1" "mode s1 = mode s"
      "shot_parameters s1 = shot_parameters s"
      by blast
    then show "\<exists>s'. tick stod e s = Inr s' \<and> mode s' = WAIT_MODE \<and>
        shot_parameters s' = shot_parameters s"
      using assms by (simp add: tick_wait shot_parameters_def)
    show "\<exists>z'. tick_starter e s = Inr z' \<and> mode z' = WAIT_MODE \<and>
        shot_parameters z' = shot_parameters s"
      using assms o
      by (simp add: tick_starter_def wait_mode_starter_def Let_def shot_parameters_def)
  qed
  have exe: "(if shot_strings_parse stod e
             then \<exists>s'. tick stod e s = Inr s' \<and> mode s' = EXECUTE_MODE
             else \<exists>s'. tick stod e s = Inl (Stod_exception, s') \<and> mode s' = EXECUTE_MODE) \<and>
            (\<exists>z'. tick_starter e s = Inr z' \<and> mode z' = EXECUTE_MODE)"
    if x: "redis_get e MODE_CHANGE_KEY = ''execute''"
  proof
    show "if shot_strings_parse stod e
          then \<exists>s'. tick stod e s = Inr s' \<and> mode s' = EXECUTE_MODE
          else \<exists>s'. tick stod e s = Inl (Stod_exception, s') \<and> mode s' = EXECUTE_MODE"
    proof (cases "shot_strings_parse stod e")
      case True
      from wait_mode_execute_ok [OF x True, of s] obtain s1 where
        "wait_mode stod e s = Inr s1" "mode s1 = EXECUTE_MODE" by blast
      then show ?thesis using True assms by (simp add: tick_wait)
    next
      case False
      from wait_mode_execute_throw [OF x False, of s] obtain s1 where
        "wait_mode stod e s = Inl (Stod_exception, s1)" "mode s1 = EXECUTE_MODE" by blast
      then show ?thesis using False assms by (simp add: tick_wait)
    qed
    show "\<exists>z'. tick_starter e s = Inr z' \<and> mode z' = EXECUTE_MODE"
      using assms x by (simp add: tick_starter_def wait_mode_starter_def Let_def)
  qed
  have a: "mode_after (tick stod e s) = EXECUTE_MODE \<longleftrightarrow>
      redis_get e MODE_CHANGE_KEY = ''execute''"
  proof (cases "redis_get e MODE_CHANGE_KEY = ''execute''")
    case True
    with exe show ?thesis
      by (cases "shot_strings_parse stod e") (auto simp: mode_after_def)
  next
    case False
    with other show ?thesis by (auto simp: mode_after_def)
  qed
  have b: "mode_after (tick_starter e s) = EXECUTE_MODE \<longleftrightarrow>
      redis_get e MODE_CHANGE_KEY = ''execute''"
  proof (cases "redis_get e MODE_CHANGE_KEY = ''execute''")
    case True
    with exe show ?thesis by (auto simp: mode_after_def)
  next
    case False
    with other show ?thesis by (auto simp: mode_after_def)
  qed
  from a b other exe show ?thesis by blast
qed

theorem wait_to_execute_on_token_witness:
  "(\<exists>s'. tick example_stod (example_in ''execute'' q_init_desired xh) (initial memory0) = Inr s' \<and>
         mode s' = EXECUTE_MODE) \<and>
   (\<exists>z'. tick_starter (example_in ''execute'' q_init_desired xh) (initial_starter memory0 1 0)
           = Inr z' \<and> mode z' = EXECUTE_MODE) \<and>
   (\<exists>s'. tick example_stod (example_in ''Execute'' q_init_desired xh) (initial memory0) = Inr s' \<and>
         mode s' = WAIT_MODE \<and> shot_parameters s' = shot_parameters (initial memory0)) \<and>
   (\<exists>s'. tick example_stod (example_in ''executing'' q_init_desired xh) (initial memory0) = Inr s' \<and>
         mode s' = WAIT_MODE \<and> shot_parameters s' = shot_parameters (initial memory0)) \<and>
   (\<exists>s'. tick example_stod (example_in [] q_init_desired xh) (initial memory0) = Inr s' \<and>
         mode s' = WAIT_MODE \<and> shot_parameters s' = shot_parameters (initial memory0)) \<and>
   (\<exists>s'. tick example_stod (example_in ''wait'' q_init_desired xh) (initial memory0) = Inr s' \<and>
         mode s' = WAIT_MODE \<and> shot_parameters s' = shot_parameters (initial memory0)) \<and>
   mode_after (tick (\<lambda>str. None) (example_in ''execute'' q_init_desired xh) (initial memory0)) =
     EXECUTE_MODE \<and>
   mode_after (tick (\<lambda>str. None) (example_in ''executing'' q_init_desired xh) (initial memory0)) =
     WAIT_MODE"
proof -
  have m: "mode (initial memory0) = WAIT_MODE" by (simp add: initial_def)
  have ms: "mode (initial_starter memory0 1 0) = WAIT_MODE" by (simp add: initial_starter_def)
  have tok: "redis_get (example_in t q_init_desired xh) MODE_CHANGE_KEY = t" for t
    by (simp add: example_in_def)
  note w = wait_to_execute_on_token [OF m, where stod = example_stod]
  note ws = wait_to_execute_on_token [OF ms, where stod = example_stod]
  note n = wait_to_execute_on_token [OF m, where stod = "\<lambda>str. None"]
  have ma: "mode_after (tick (\<lambda>str. None) (example_in ''execute'' q_init_desired xh)
      (initial memory0)) = EXECUTE_MODE"
    using n [of "example_in ''execute'' q_init_desired xh"] by (simp add: tok)
  have mb: "mode_after (tick (\<lambda>str. None) (example_in ''executing'' q_init_desired xh)
      (initial memory0)) \<noteq> EXECUTE_MODE"
    using n [of "example_in ''executing'' q_init_desired xh"] by (simp add: tok)
  have mc: "mode_after (tick (\<lambda>str. None) (example_in ''executing'' q_init_desired xh)
      (initial memory0)) = WAIT_MODE"
    using mb by (cases "mode_after (tick (\<lambda>str. None)
      (example_in ''executing'' q_init_desired xh) (initial memory0))") simp_all
  show ?thesis
    using w [of "example_in ''execute'' q_init_desired xh"]
      ws [of "example_in ''execute'' q_init_desired xh"]
      w [of "example_in ''Execute'' q_init_desired xh"]
      w [of "example_in ''executing'' q_init_desired xh"]
      w [of "example_in [] q_init_desired xh"]
      w [of "example_in ''wait'' q_init_desired xh"] ma mc
    by (simp add: tok example_parses)
qed

text \<open>
  C6 (amended). In \<^verbatim>\<open>EXECUTE_MODE\<close> an iteration does not read the activation token,
  nor any other string key of the store (\<^verbatim>\<open>redis_client.get\<close> is not called): its
  result is the same whatever strings these keys hold. The mode goes back to
  \<^verbatim>\<open>WAIT_MODE\<close> only in an iteration of \<^verbatim>\<open>POSORI_CONTROLLER\<close> in which the
  goal-reached predicate holds and \<open>t > t_4\<close>. There is no recovery from a stalled
  phase: as long as the joint goal is not seen the approach goes on, and once the shot is
  over the return goes on as long as the goal-reached predicate is false. (The sensed
  joint angles and velocities, which the iteration does read from the store, are not
  among the strings of \<open>redis_get\<close> and are not varied here; the two predicates depend
  on them.)
\<close>

theorem execute_ignores_token:
  assumes "mode s = EXECUTE_MODE"
  shows "tick stod' (e\<lparr>redis_get := f\<rparr>) s = tick stod e s \<and>
    (\<forall>s'. tick stod e s = Inr s' \<and> mode s' = WAIT_MODE \<longrightarrow>
       state s = POSORI_CONTROLLER \<and> reached e s \<and>
       t_4 s < real (controller_counter s) * 0.001) \<and>
    (state s = JOINT_CONTROLLER \<and> (\<forall>x\<in>set ins. sized x s \<and> \<not> joint_goal x) \<longrightarrow>
       (\<exists>s'. run_loop stod ins s = Inr s' \<and> mode s' = EXECUTE_MODE \<and>
          state s' = JOINT_CONTROLLER)) \<and>
    (state s = POSORI_CONTROLLER \<and>
     t_3 s + total_time s \<le> real (controller_counter s) * 0.001 \<and>
     (\<forall>x\<in>set ins. sized x s \<and> \<not> reached x s) \<longrightarrow>
       (\<exists>s'. run_loop stod ins s = Inr s' \<and> mode s' = EXECUTE_MODE \<and>
          state s' = POSORI_CONTROLLER))"
  using tick_execute_redis [OF assms, where stod' = stod' and e = e and f = f and stod = stod]
    tick_to_wait [OF assms, of stod e]
    stall_approach [OF assms, of ins stod] stall_return [OF assms, of ins stod]
  by blast

theorem execute_ignores_token_witness:
  "(\<exists>s'. run_loop example_stod
           [example_in ''wait'' [0, 0, 0, 0, 0, 0, 0] xh,
            example_in ''wait'' [0, 0, 0, 0, 0, 0, 0] xh,
            example_in ''wait'' [0, 0, 0, 0, 0, 0, 0] xh]
           ((initial memory0)\<lparr>mode := EXECUTE_MODE\<rparr>) = Inr s' \<and>
         mode s' = EXECUTE_MODE \<and> state s' = JOINT_CONTROLLER) \<and>
   tick example_stod ((example_in ''wait'' [0, 0, 0, 0, 0, 0, 0] xh)\<lparr>redis_get := (\<lambda>key. ''execute'')\<rparr>)
     ((initial memory0)\<lparr>mode := EXECUTE_MODE\<rparr>) =
   tick example_stod (example_in ''wait'' [0, 0, 0, 0, 0, 0, 0] xh)
     ((initial memory0)\<lparr>mode := EXECUTE_MODE\<rparr>)"
proof -
  define e where "e = example_in ''wait'' [0, 0, 0, 0, 0, 0, 0] xh"
  define s where "s = (initial memory0)\<lparr>mode := EXECUTE_MODE\<rparr>"
  have m: "mode s = EXECUTE_MODE" and st: "state s = JOINT_CONTROLLER"
    by (simp_all add: s_def initial_def)
  have sz: "sized e s"
    by (simp add: e_def s_def sized_def example_in_def initial_def memory0_def)
  have "(0.15 :: real)\<^sup>2 \<le> (\<Sum>a\<leftarrow>vminus (sensed_q e) q_init_desired. a * a)"
    by (simp add: e_def example_in_def vminus_def q_init_desired_def power2_eq_square)
  then have "0.15 \<le> vnorm (vminus (sensed_q e) q_init_desired)"
    unfolding vnorm_def by (rule real_le_rsqrt)
  then have nj: "\<not> joint_goal e" by (simp add: joint_goal_def)
  have all: "state s = JOINT_CONTROLLER \<and> (\<forall>x\<in>set [e, e, e]. sized x s \<and> \<not> joint_goal x)"
    using st sz nj by simp
  note inst = execute_ignores_token [OF m, where stod' = example_stod and stod = example_stod
      and e = e and f = "\<lambda>key. ''execute''" and ins = "[e, e, e]"]
  from inst all have "\<exists>s'. run_loop example_stod [e, e, e] s = Inr s' \<and>
      mode s' = EXECUTE_MODE \<and> state s' = JOINT_CONTROLLER"
    by blast
  moreover from inst have
    "tick example_stod (e\<lparr>redis_get := (\<lambda>key. ''execute'')\<rparr>) s = tick example_stod e s"
    by blast
  ultimately show ?thesis
    unfolding e_def s_def by (intro conjI)
qed

text \<open>
  C6 as stated fails: no value written under the mode key makes an iteration in
  \<^verbatim>\<open>EXECUTE_MODE\<close> return to \<^verbatim>\<open>WAIT_MODE\<close> while the goal-reached predicate is false
  for the sensed values of that iteration.
\<close>

theorem no_forced_wait:
  "\<not> (\<exists>stod e s v s'. mode s = EXECUTE_MODE \<and>
        tick stod (e\<lparr>redis_get := (\<lambda>key. if key = MODE_CHANGE_KEY then v else redis_get e key)\<rparr>) s
          = Inr s' \<and>
        mode s' = WAIT_MODE \<and> \<not> reached e s)"
proof
  assume "\<exists>stod e s v s'. mode s = EXECUTE_MODE \<and>
        tick stod (e\<lparr>redis_get := (\<lambda>key. if key = MODE_CHANGE_KEY then v else redis_get e key)\<rparr>) s
          = Inr s' \<and>
        mode s' = WAIT_MODE \<and> \<not> reached e s"
  then obtain stod e s v s' where h: "mode s = EXECUTE_MODE"
    "tick stod (e\<lparr>redis_get := (\<lambda>key. if key = MODE_CHANGE_KEY then v else redis_get e key)\<rparr>) s
       = Inr s'"
    "mode s' = WAIT_MODE" "\<not> reached e s" by blast
  from h(2) have "tick stod e s = Inr s'"
    using tick_execute_redis [OF h(1), where stod' = stod and e = e and stod = stod
        and f = "\<lambda>key. if key = MODE_CHANGE_KEY then v else redis_get e key"]
    by simp
  from tick_to_wait [OF h(1) this h(3)] h(4) show False by simp
qed

text \<open>
  C7. At an activation the program sets the swing angle to \<open>120*pi/180\<close>, the amplitude
  \<^verbatim>\<open>a\<close> to half of it, the angular velocity to \<^verbatim>\<open>hit_velocity / ee_length\<close> and the rate
  \<^verbatim>\<open>w\<close> to the angular velocity divided by the amplitude. \<^verbatim>\<open>hit_velocity\<close> is what the
  memory held when \<^verbatim>\<open>main\<close> began: no statement assigns it. The same activation on two
  memory contents that differ in that local only gives two different rates.
\<close>

theorem activation_derived_values:
  assumes "run_loop stod ins (initial u) = Inr s" and "mode s = WAIT_MODE"
    and "redis_get e MODE_CHANGE_KEY = ''execute''" and "tick stod e s = Inr s'"
  shows "swing_angle s' = 120 * pi / 180 \<and> main_a s' = swing_angle s' / 2 \<and>
         shot_angular_velocity s' = hit_velocity u / ee_length \<and>
         main_w s' = shot_angular_velocity s' / main_a s'"
proof -
  have hv: "hit_velocity s = hit_velocity u"
    using run_loop_hit_velocity [OF assms(1)] by (simp add: initial_def)
  from assms(2,4) obtain s1 where s1: "wait_mode stod e s = Inr s1"
    "s' = s1\<lparr>redis_writes := redis_writes s1 @
                   [Set_matrix JOINT_TORQUES_COMMANDED_KEY (command_torques s1)]\<rparr>"
    by (auto simp: tick_wait split: sum.splits)
  from wait_mode_derived [OF s1(1) assms(3)] hv s1(2) show ?thesis by simp
qed

theorem activation_derived_values_witness:
  "\<exists>s1 s2.
     tick example_stod (example_in ''execute'' q_init_desired xh) (initial memory0) = Inr s1 \<and>
     tick example_stod (example_in ''execute'' q_init_desired xh)
       (initial (memory0\<lparr>hit_velocity := 1\<rparr>)) = Inr s2 \<and>
     main_a s1 = pi / 3 \<and> main_a s2 = pi / 3 \<and>
     main_w s1 = 0 \<and> main_w s2 = (1 / ee_length) / (pi / 3) \<and> main_w s1 \<noteq> main_w s2"
proof -
  define e where "e = example_in ''execute'' q_init_desired xh"
  have tok: "redis_get e MODE_CHANGE_KEY = ''execute''"
    by (simp add: e_def example_in_def)
  have p: "shot_strings_parse example_stod e"
    unfolding e_def by (rule example_parses)
  have r: "run_loop example_stod [] (initial u) = Inr (initial u)" for u by simp
  have m: "mode (initial u) = WAIT_MODE" for u by (simp add: initial_def)
  have ex: "\<exists>s'. tick example_stod e (initial u) = Inr s'" for u
    using wait_mode_execute_ok [OF tok p, of "initial u"] by (auto simp: tick_wait [OF m])
  obtain s1 where s1: "tick example_stod e (initial memory0) = Inr s1"
    using ex by blast
  obtain s2 where s2: "tick example_stod e (initial (memory0\<lparr>hit_velocity := 1\<rparr>)) = Inr s2"
    using ex by blast
  from activation_derived_values [OF r m tok s1] have f:
    "swing_angle s1 = 120 * pi / 180" "main_a s1 = swing_angle s1 / 2"
    "shot_angular_velocity s1 = hit_velocity memory0 / ee_length"
    "main_w s1 = shot_angular_velocity s1 / main_a s1"
    by blast+
  have a1: "main_a s1 = pi / 3" unfolding f(2) f(1) by simp
  have w1: "main_w s1 = 0" unfolding f(4) f(3) by (simp add: memory0_def)
  from activation_derived_values [OF r m tok s2] have g:
    "swing_angle s2 = 120 * pi / 180" "main_a s2 = swing_angle s2 / 2"
    "shot_angular_velocity s2 = hit_velocity (memory0\<lparr>hit_velocity := 1\<rparr>) / ee_length"
    "main_w s2 = shot_angular_velocity s2 / main_a s2"
    by blast+
  have a2: "main_a s2 = pi / 3" unfolding g(2) g(1) by simp
  have w2: "main_w s2 = (1 / ee_length) / (pi / 3)" unfolding g(4) g(3) a2 by simp
  have "(1 / ee_length) / (pi / 3) \<noteq> 0"
    by (simp add: ee_length_def)
  then have "main_w s1 \<noteq> main_w s2" unfolding w1 w2 by simp
  with s1 a1 w1 s2 a2 w2 show ?thesis
    unfolding e_def by blast
qed

text \<open>
  C8. For every joint state, \<^verbatim>\<open>safetyChecks\<close> prints a line for a quantity of a joint
  exactly when that quantity is strictly out of its limit (a value equal to the limit
  is not flagged), once per violation; \<^verbatim>\<open>panda_starter_code\<close> prints the same lines
  without the joint number. When one joint position is 0.01 above its maximum and
  nothing else is out of its limit, the output is the one line for that joint. The
  vectors hold at least \<open>n\<close> values and \<open>n\<close> is at most seven.
\<close>

theorem safetyChecks_flags:
  assumes "n \<le> 7" "n \<le> length q" "n \<le> length dq" "n \<le> length tau"
  shows "\<exists>out. safetyChecks q dq tau n = Inr out \<and>
           safetyChecks_starter q dq tau n = Inr (map fst out) \<and>
           distinct out \<and>
           (\<forall>v j. (v, j) \<in> set out \<longleftrightarrow> (\<exists>i<n. j = i + 1 \<and> violates q dq tau v i)) \<and>
           (\<forall>j<n. q ! j = joint_position_max ! j + 0.01 \<and>
                   (\<forall>i<n. \<forall>v. violates q dq tau v i \<longrightarrow> v = MAX_JOINT_POSITION \<and> i = j)
                \<longrightarrow> out = [(MAX_JOINT_POSITION, j + 1)])"
proof -
  let ?out = "concat (map (checks_of_joint q dq tau) [0..<n])"
  have a: "safetyChecks q dq tau n = Inr ?out"
    using assms by (simp add: safetyChecks_def safetyChecks_from_eq)
  have "concat (map (checks_of_joint_starter q dq tau) [0..<n]) = map fst ?out"
    by (simp add: checks_starter_fst map_concat comp_def)
  then have b: "safetyChecks_starter q dq tau n = Inr (map fst ?out)"
    using assms by (simp add: safetyChecks_starter_def safetyChecks_starter_from_eq)
  have c: "\<forall>v j. (v, j) \<in> set ?out \<longleftrightarrow> (\<exists>i<n. j = i + 1 \<and> violates q dq tau v i)"
    using set_all_checks by blast
  have d: "?out = [(MAX_JOINT_POSITION, j + 1)]"
    if j: "j < n" and qj: "q ! j = joint_position_max ! j + 0.01"
      and others: "\<forall>i<n. \<forall>v. violates q dq tau v i \<longrightarrow> v = MAX_JOINT_POSITION \<and> i = j" for j
  proof (rule concat_single [OF j])
    have "\<not> violates q dq tau MIN_JOINT_POSITION j"
         "\<not> violates q dq tau MAX_JOINT_VELOCITY j"
         "\<not> violates q dq tau MAX_JOINT_TORQUE j"
      using others j by blast+
    then show "checks_of_joint q dq tau j = [(MAX_JOINT_POSITION, j + 1)]"
      using qj by (simp add: checks_of_joint_def)
    show "\<forall>i<n. i \<noteq> j \<longrightarrow> checks_of_joint q dq tau i = []"
    proof (intro allI impI)
      fix i assume "i < n" "i \<noteq> j"
      then have "\<not> violates q dq tau v i" for v using others by blast
      from this [of MAX_JOINT_POSITION] this [of MIN_JOINT_POSITION]
        this [of MAX_JOINT_VELOCITY] this [of MAX_JOINT_TORQUE]
      show "checks_of_joint q dq tau i = []" by (simp add: checks_of_joint_def)
    qed
  qed
  show ?thesis
    using a b c d distinct_all_checks [of q dq tau n] by blast
qed


theorem safetyChecks_flags_witness:
  "safetyChecks [2.71, 0, 0, -1, 0, 1, 0] [0, 0, 0, 0, 0, 0, 0] [0, 0, 0, 0, 0, 0, 0] 7 =
     Inr [(MAX_JOINT_POSITION, 1)] \<and>
   safetyChecks_starter [2.71, 0, 0, -1, 0, 1, 0] [0, 0, 0, 0, 0, 0, 0] [0, 0, 0, 0, 0, 0, 0] 7 =
     Inr [MAX_JOINT_POSITION]"
proof -
  let ?q = "[2.71, 0, 0, -1, 0, 1, 0] :: real list"
  let ?z = "[0, 0, 0, 0, 0, 0, 0] :: real list"
  have only: "\<forall>i<7. \<forall>v. violates ?q ?z ?z v i \<longrightarrow> v = MAX_JOINT_POSITION \<and> i = 0"
  proof (intro allI impI)
    fix i :: nat and v
    assume "i < 7" and viol: "violates ?q ?z ?z v i"
    then consider "i = 0" | "i = 1" | "i = 2" | "i = 3" | "i = 4" | "i = 5" | "i = 6"
      by linarith
    then show "v = MAX_JOINT_POSITION \<and> i = 0"
      using viol
      by cases
        (cases v; simp add: joint_position_max_def joint_position_min_def
          joint_velocity_limits_def joint_torques_limits_def)+
  qed
  have first: "?q ! 0 = joint_position_max ! 0 + 0.01"
    by (simp add: joint_position_max_def)
  from safetyChecks_flags [of 7 ?q ?z ?z] obtain out where
    out: "safetyChecks ?q ?z ?z 7 = Inr out"
      "safetyChecks_starter ?q ?z ?z 7 = Inr (map fst out)"
      "\<forall>j<7. ?q ! j = joint_position_max ! j + 0.01 \<and>
              (\<forall>i<7. \<forall>v. violates ?q ?z ?z v i \<longrightarrow> v = MAX_JOINT_POSITION \<and> i = j)
           \<longrightarrow> out = [(MAX_JOINT_POSITION, j + 1)]"
    by auto
  from out(3) first only have "out = [(MAX_JOINT_POSITION, 1)]"
    by (metis One_nat_def add_0 zero_less_numeral)
  with out(1,2) show ?thesis by simp
qed

text \<open>
  C9. For every time \<open>t\<close> with \<open>t < t_0\<close> or \<open>t \<ge> t_4\<close> and every strike angle,
  \<^verbatim>\<open>calculatePointInTrajectory\<close> returns the home position and
  \<^verbatim>\<open>calculateRotationInTrajectory\<close> the home orientation. The slots are ordered, as the
  values of the source are.
\<close>

theorem outside_windows_home:
  assumes "t_0 g \<le> t_1 g" "t_1 g \<le> t_2 g" "t_2 g \<le> t_3 g" "t_3 g \<le> t_4 g"
    and "t < t_0 g \<or> t_4 g \<le> t"
  shows "calculatePointInTrajectory g t = xh \<and>
         calculateRotationInTrajectory g t ps = home_orientation"
  using assms
  by (auto simp: calculatePointInTrajectory_def calculateRotationInTrajectory_def inRange_def)

theorem outside_windows_home_witness:
  "t_0 (initial memory0) \<le> t_1 (initial memory0) \<and>
   t_3 (initial memory0) \<le> t_4 (initial memory0) \<and>
   t_4 (initial memory0) \<le> 100 \<and>
   calculatePointInTrajectory (initial memory0) 100 = xh \<and>
   calculateRotationInTrajectory (initial memory0) 100 (pi / 2) = home_orientation \<and>
   calculatePointInTrajectory (initial memory0) (-1) = xh"
  using outside_windows_home [of "initial memory0" 100 "pi / 2"]
    outside_windows_home [of "initial memory0" "-1" "pi / 2"]
  by (simp add: initial_def)

text \<open>
  C10. When the loop ends by cancellation, \<^verbatim>\<open>panda_interface\<close> sets the commanded torques
  to zero and publishes them once, as the last write to the store.
  \<^verbatim>\<open>panda_starter_code\<close> sets them to zero and publishes nothing: its writes are those of
  the loop.
\<close>

theorem final_zero_publish:
  "(main stod u ins = Inr s' \<longrightarrow>
      (\<exists>s. run_loop stod ins (initial u) = Inr s \<and>
           command_torques s' = map (\<lambda>c. 0) (command_torques s) \<and>
           redis_writes s' = redis_writes s @
             [Set_matrix JOINT_TORQUES_COMMANDED_KEY (map (\<lambda>c. 0) (command_torques s))])) \<and>
   (main_starter u hv start_angle_deg ins = Inr z' \<longrightarrow>
      (\<exists>z. run_loop_starter ins (initial_starter u hv start_angle_deg) = Inr z \<and>
           command_torques z' = map (\<lambda>c. 0) (command_torques z) \<and>
           redis_writes z' = redis_writes z))"
  by (auto simp: main_def main_starter_def after_loop_def after_loop_starter_def Let_def
      split: sum.splits)

theorem final_zero_publish_witness:
  "(\<exists>s'. main example_stod memory0 [] = Inr s' \<and>
      redis_writes s' = [Set_matrix JOINT_TORQUES_COMMANDED_KEY [0, 0, 0, 0, 0, 0, 0]]) \<and>
   (\<exists>z'. main_starter memory0 1 0 [] = Inr z' \<and>
      command_torques z' = [0, 0, 0, 0, 0, 0, 0] \<and> redis_writes z' = [])"
proof -
  obtain s' where s: "main example_stod memory0 [] = Inr s'"
    by (simp add: main_def)
  obtain z' where z: "main_starter memory0 1 0 [] = Inr z'"
    by (simp add: main_starter_def)
  have seven: "replicate 7 (0 :: real) = [0, 0, 0, 0, 0, 0, 0]"
    by (simp add: numeral_eq_Suc)
  from final_zero_publish [of example_stod memory0 "[]" s' 1 0 z'] s z
  have "redis_writes s' = [Set_matrix JOINT_TORQUES_COMMANDED_KEY [0, 0, 0, 0, 0, 0, 0]]"
    and "command_torques z' = [0, 0, 0, 0, 0, 0, 0] \<and> redis_writes z' = []"
    by (simp_all add: initial_def initial_starter_def memory0_def seven)
  with s z show ?thesis by blast
qed

end
